theory Spec2Isabelle
  imports Complex_Main
begin

section \<open>JavaScript values\<close>

text \<open>
  Payloads that the server caches and sends (\<^verbatim>\<open>res.json\<close>) are JSON values. \<open>JNull\<close>
  stands for both \<^verbatim>\<open>null\<close> and \<^verbatim>\<open>undefined\<close>; numbers are rationals (the values a
  double can hold, apart from NaN and the infinities, which JSON cannot carry).
\<close>

datatype json =
    JNull
  | JBool bool
  | JNum rat
  | JStr string
  | JArr "json list"
  | JObj "(string \<times> json) list"

text \<open>ToBoolean, as used by \<^verbatim>\<open>if (x)\<close>, \<^verbatim>\<open>x || y\<close> and \<^verbatim>\<open>x ? a : b\<close>.\<close>

fun truthy :: "json \<Rightarrow> bool" where
  "truthy JNull = False"
| "truthy (JBool b) = b"
| "truthy (JNum n) = (n \<noteq> 0)"
| "truthy (JStr s) = (s \<noteq> [])"
| "truthy (JArr xs) = True"
| "truthy (JObj kvs) = True"

text \<open>\<^verbatim>\<open>a || b\<close>\<close>

definition js_or :: "json \<Rightarrow> json \<Rightarrow> json" where
  "js_or a b = (if truthy a then a else b)"

section \<open>The API cache (server.js, lines 35--47)\<close>

text \<open>
  \<^verbatim>\<open>const apiCache = new Map(); const CACHE_TTL = 10000;\<close>
  An entry is \<^verbatim>\<open>{data, timestamp}\<close>; \<^verbatim>\<open>Date.now()\<close> is an integer number of milliseconds and
  is passed in as \<open>now\<close>.
\<close>

record cache_entry =
  data :: json
  timestamp :: int

type_synonym api_cache = "string \<rightharpoonup> cache_entry"

definition CACHE_TTL :: int where
  "CACHE_TTL = 10000"

text \<open>
  \<^verbatim>\<open>
  const getCachedData = (key) => {
      const cached = apiCache.get(key);
      if (cached && Date.now() - cached.timestamp < CACHE_TTL) {
          return cached.data;
      }
      apiCache.delete(key);
      return null;
  };
  \<close>
  The function reads the clock and mutates the map; the model takes the clock value and
  the map and returns the value together with the map afterwards.
\<close>

definition getCachedData :: "int \<Rightarrow> api_cache \<Rightarrow> string \<Rightarrow> json \<times> api_cache" where
  "getCachedData now cache key =
     (case cache key of
        Some cached \<Rightarrow>
          if now - timestamp cached < CACHE_TTL then (data cached, cache)
          else (JNull, cache(key := None))
      | None \<Rightarrow> (JNull, cache(key := None)))"

text \<open>
  The write, inlined at every use in the source:
  \<^verbatim>\<open>apiCache.set(cacheKey, { data: d, timestamp: Date.now() })\<close>.
\<close>

definition apiCache_set :: "int \<Rightarrow> api_cache \<Rightarrow> string \<Rightarrow> json \<Rightarrow> api_cache" where
  "apiCache_set now cache key d = cache(key \<mapsto> \<lparr>data = d, timestamp = now\<rparr>)"

section \<open>Property lookup on plain objects\<close>

text \<open>
  \<^verbatim>\<open>batteryIdMap\<close> (the export of \<^verbatim>\<open>./public/batteryIdMap\<close>) and \<^verbatim>\<open>stationInfoMap\<close>
  (\<^verbatim>\<open>const stationInfoMap = {}\<close>) are plain objects, used with \<^verbatim>\<open>key in obj\<close> and
  \<^verbatim>\<open>obj[key]\<close>. Both operators walk the prototype chain: a key that is not an own
  property is looked up in \<^verbatim>\<open>Object.prototype\<close>. The own properties are a map
  \<open>string \<rightharpoonup> 'a\<close>; the members of \<^verbatim>\<open>Object.prototype\<close> are listed below. Every one of
  them is a function, whose \<^verbatim>\<open>name\<close> property is given, except the accessor
  \<^verbatim>\<open>__proto__\<close>, which reads as the object \<^verbatim>\<open>Object.prototype\<close> itself.
\<close>

datatype proto_member = ProtoFunction string | ProtoObject

definition Object_prototype :: "(string \<times> proto_member) list" where
  "Object_prototype =
     [(''constructor'', ProtoFunction ''Object''),
      (''__defineGetter__'', ProtoFunction ''__defineGetter__''),
      (''__defineSetter__'', ProtoFunction ''__defineSetter__''),
      (''hasOwnProperty'', ProtoFunction ''hasOwnProperty''),
      (''__lookupGetter__'', ProtoFunction ''__lookupGetter__''),
      (''__lookupSetter__'', ProtoFunction ''__lookupSetter__''),
      (''isPrototypeOf'', ProtoFunction ''isPrototypeOf''),
      (''propertyIsEnumerable'', ProtoFunction ''propertyIsEnumerable''),
      (''toString'', ProtoFunction ''toString''),
      (''valueOf'', ProtoFunction ''valueOf''),
      (''__proto__'', ProtoObject),
      (''toLocaleString'', ProtoFunction ''toLocaleString'')]"

datatype 'a property = Own 'a | Inherited proto_member | Undefined

text \<open>\<^verbatim>\<open>obj[key]\<close>\<close>

definition js_get :: "(string \<rightharpoonup> 'a) \<Rightarrow> string \<Rightarrow> 'a property" where
  "js_get obj key =
     (case obj key of
        Some v \<Rightarrow> Own v
      | None \<Rightarrow> (case map_of Object_prototype key of
                   Some m \<Rightarrow> Inherited m
                 | None \<Rightarrow> Undefined))"

text \<open>\<^verbatim>\<open>key in obj\<close>\<close>

definition js_in :: "string \<Rightarrow> (string \<rightharpoonup> 'a) \<Rightarrow> bool" where
  "js_in key obj = (case js_get obj key of Undefined \<Rightarrow> False | _ \<Rightarrow> True)"

section \<open>Strings\<close>

text \<open>
  Strings are taken to be ASCII. White space, as \<^verbatim>\<open>String.prototype.trim\<close> and
  \<^verbatim>\<open>parseInt\<close> strip it: TAB, LF, VT, FF, CR and the space.
\<close>

definition is_ws :: "char \<Rightarrow> bool" where
  "is_ws c = (c \<in> set [CHR 0x09, CHR 0x0A, CHR 0x0B, CHR 0x0C, CHR 0x0D, CHR '' ''])"

definition js_trim :: "string \<Rightarrow> string" where
  "js_trim s = rev (dropWhile is_ws (rev (dropWhile is_ws s)))"

text \<open>The decimal digits of a natural number, as a template literal prints a count.\<close>

definition digit_char :: "nat \<Rightarrow> char" where
  "digit_char d = ''0123456789'' ! d"

fun digits10 :: "nat \<Rightarrow> string" where
  "digits10 n = (if n < 10 then [digit_char n] else digits10 (n div 10) @ [digit_char (n mod 10)])"

section \<open>GET /api/battery/:batteryId (server.js, lines 98--109, 280--312, 378--386)\<close>

text \<open>
  A value of the static battery-id table: the real battery id as a string, or
  \<^verbatim>\<open>null\<close>/\<^verbatim>\<open>undefined\<close> for an id that is listed without one.
\<close>

datatype real_id = RNull | RStr string

record response =
  status :: nat
  body :: json

definition error_body :: "string \<Rightarrow> json" where
  "error_body msg = JObj [(''error'', JStr msg)]"

text \<open>
  What a middleware does with a request: it sends a response, it calls \<^verbatim>\<open>next()\<close>, or
  it throws (Express then runs the error-handling middleware).
\<close>

datatype mw_result = Responded response | Next | Threw string

text \<open>
  \<^verbatim>\<open>
  const validateBatteryId = (req, res, next) => {
      const { batteryId } = req.params;
      if (!batteryId || !(batteryId in batteryIdMap)) {
          return res.status(400).json({ error: "Invalid battery ID" });
      }
      const realBatteryId = batteryIdMap[batteryId];
      if (!realBatteryId || realBatteryId.trim() === '') {
          return res.status(400).json({ error: "Battery ID not configured" });
      }
      next();
  };
  \<close>
  An inherited member of \<^verbatim>\<open>Object.prototype\<close> is truthy and has no \<^verbatim>\<open>trim\<close> method, so
  \<^verbatim>\<open>realBatteryId.trim()\<close> throws a TypeError on it.
\<close>

definition validateBatteryId :: "(string \<rightharpoonup> real_id) \<Rightarrow> string \<Rightarrow> mw_result" where
  "validateBatteryId batteryIdMap batteryId =
     (if batteryId = [] then
        Responded \<lparr>status = 400, body = error_body ''Invalid battery ID''\<rparr>
      else if js_in batteryId batteryIdMap then
        (case js_get batteryIdMap batteryId of
           Own RNull \<Rightarrow> Responded \<lparr>status = 400, body = error_body ''Battery ID not configured''\<rparr>
         | Own (RStr realBatteryId) \<Rightarrow>
             if realBatteryId = [] then
               Responded \<lparr>status = 400, body = error_body ''Battery ID not configured''\<rparr>
             else if js_trim realBatteryId = [] then
               Responded \<lparr>status = 400, body = error_body ''Battery ID not configured''\<rparr>
             else Next
         | Inherited m \<Rightarrow> Threw ''realBatteryId.trim is not a function''
         | Undefined \<Rightarrow> Responded \<lparr>status = 400, body = error_body ''Battery ID not configured''\<rparr>)
      else Responded \<lparr>status = 400, body = error_body ''Invalid battery ID''\<rparr>)"

text \<open>
  \<^verbatim>\<open>
  app.use((err, req, res, next) => {
      res.status(500).json({
          error: process.env.NODE_ENV === 'production' ? 'Internal server error' : err.message
      });
  });
  \<close>
\<close>

definition globalErrorHandler :: "bool \<Rightarrow> string \<Rightarrow> response" where
  "globalErrorHandler production message =
     \<lparr>status = 500,
      body = error_body (if production then ''Internal server error'' else message)\<rparr>"

text \<open>
  \<^verbatim>\<open>supplierApi.findBatteryById\<close> belongs to a module that is not part of the sources at
  hand; the handler only depends on what the awaited call yields, which is a parameter
  here: the promise resolves to \<^verbatim>\<open>{success, data, error}\<close> or it rejects.
\<close>

datatype adapter_reply =
    Resolved (success: bool) (reply_data: json) (reply_error: json)
  | Rejected string

text \<open>
  The state the handler works on: the cache, and the list of real battery ids for which
  \<^verbatim>\<open>supplierApi.findBatteryById\<close> was called (the network calls to a supplier).
\<close>

record server_state =
  apiCache :: api_cache
  supplierCalls :: "string list"

text \<open>
  \<^verbatim>\<open>
  async (req, res) => {
      const customBatteryId = req.params.batteryId;
      const realBatteryId = batteryIdMap[customBatteryId];
      const cacheKey = `battery_${realBatteryId}`;
      const cachedData = getCachedData(cacheKey);
      if (cachedData) {
          return res.json(cachedData);
      }
      try {
          const result = await supplierApi.findBatteryById(realBatteryId);
          if (result.success) {
              apiCache.set(cacheKey, { data: result.data, timestamp: Date.now() });
              res.json(result.data);
          } else {
              res.status(404).json({ error: result.error || "Battery not found" });
          }
      } catch (error) {
          res.status(500).json({ error: "Internal server error" });
      }
  }
  \<close>
  (the console calls are left out here and in the model). \<open>now\<close> is the clock when the
  cache is read, \<open>later\<close> the clock when the awaited call has returned. A call that
  resolves to a value without properties (\<^verbatim>\<open>null\<close>) ends in the \<^verbatim>\<open>catch\<close> like a rejected
  one, and counts as \<open>Rejected\<close>.
\<close>

definition batteryHandler ::
  "(string \<Rightarrow> adapter_reply) \<Rightarrow> int \<Rightarrow> int \<Rightarrow> server_state \<Rightarrow> string \<Rightarrow> response \<times> server_state"
where
  "batteryHandler findBatteryById now later st realBatteryId =
     (let cacheKey = ''battery_'' @ realBatteryId;
          cachedData = fst (getCachedData now (apiCache st) cacheKey);
          st1 = st\<lparr>apiCache := snd (getCachedData now (apiCache st) cacheKey)\<rparr>
      in if truthy cachedData then (\<lparr>status = 200, body = cachedData\<rparr>, st1)
         else
           (let st2 = st1\<lparr>supplierCalls := supplierCalls st1 @ [realBatteryId]\<rparr>
            in case findBatteryById realBatteryId of
                 Resolved ok d err \<Rightarrow>
                   if ok then
                     (\<lparr>status = 200, body = d\<rparr>,
                      st2\<lparr>apiCache := apiCache_set later (apiCache st2) cacheKey d\<rparr>)
                   else
                     (\<lparr>status = 404,
                       body = JObj [(''error'', js_or err (JStr ''Battery not found''))]\<rparr>, st2)
               | Rejected e \<Rightarrow>
                   (\<lparr>status = 500, body = error_body ''Internal server error''\<rparr>, st2)))"

text \<open>
  The route \<^verbatim>\<open>app.get('/api/battery/:batteryId', validateBatteryId, async (req, res) => ...)\<close>:
  the handler runs when the middleware called \<^verbatim>\<open>next()\<close>, which it does only for an own,
  non-blank string value (lemma \<open>validateBatteryId_Next\<close> below), so the last branch is
  never taken.
\<close>

definition battery_route ::
  "bool \<Rightarrow> (string \<rightharpoonup> real_id) \<Rightarrow> (string \<Rightarrow> adapter_reply) \<Rightarrow> int \<Rightarrow> int \<Rightarrow> server_state
     \<Rightarrow> string \<Rightarrow> response \<times> server_state"
where
  "battery_route production batteryIdMap findBatteryById now later st batteryId =
     (case validateBatteryId batteryIdMap batteryId of
        Responded r \<Rightarrow> (r, st)
      | Threw message \<Rightarrow> (globalErrorHandler production message, st)
      | Next \<Rightarrow>
          (case js_get batteryIdMap batteryId of
             Own (RStr realBatteryId) \<Rightarrow> batteryHandler findBatteryById now later st realBatteryId
           | _ \<Rightarrow> (globalErrorHandler production ''unreachable'', st)))"

section \<open>Merging supplier data with station metadata (server.js, lines 113--164, 436--473)\<close>

text \<open>
  A static metadata record, as the merge reads it. Every field but the id is a JavaScript
  value that may be missing (\<open>JNull\<close>); \<^verbatim>\<open>locationManager.getAll\<close> fills \<^verbatim>\<open>name\<close> and
  \<^verbatim>\<open>coordinates\<close> only.
\<close>

record station_info =
  si_id :: string
  name :: json
  address :: json
  coordinates :: json
  hours :: json

text \<open>One element of the live data that the supplier module returns.\<close>

record station_data =
  sd_id :: string
  available :: json
  occupied :: json
  error :: json

text \<open>
  \<^verbatim>\<open>
  const stationInfoMap = {};
  allStations.forEach(station => { stationInfoMap[station.id] = station; });
  \<close>
  (A record whose id is the string \<^verbatim>\<open>__proto__\<close> would replace the prototype of the object
  instead of adding a key; such a record is outside this model.)
\<close>

definition buildStationInfoMap :: "station_info list \<Rightarrow> (string \<rightharpoonup> station_info)" where
  "buildStationInfoMap allStations = foldl (\<lambda>m station. m(si_id station \<mapsto> station)) Map.empty allStations"

text \<open>
  \<^verbatim>\<open>stationInfo?.name\<close> and \<^verbatim>\<open>stationInfo?.address\<close>, \<^verbatim>\<open>?.coordinates\<close>, \<^verbatim>\<open>?.hours\<close>, where
  \<^verbatim>\<open>stationInfo = stationInfoMap[stationData.id]\<close>. A function inherited from
  \<^verbatim>\<open>Object.prototype\<close> has a \<^verbatim>\<open>name\<close> and none of the other three properties.
\<close>

fun stationInfo_name :: "station_info property \<Rightarrow> json" where
  "stationInfo_name (Own stationInfo) = name stationInfo"
| "stationInfo_name (Inherited (ProtoFunction fname)) = JStr fname"
| "stationInfo_name (Inherited ProtoObject) = JNull"
| "stationInfo_name Undefined = JNull"

fun stationInfo_field :: "(station_info \<Rightarrow> json) \<Rightarrow> station_info property \<Rightarrow> json" where
  "stationInfo_field f (Own stationInfo) = f stationInfo"
| "stationInfo_field f (Inherited m) = JNull"
| "stationInfo_field f Undefined = JNull"

text \<open>
  \<^verbatim>\<open>isOpen: (id) => { return true; }\<close> (the \<^verbatim>\<open>locationManager\<close> of locations.js; in the
  sources at hand it follows map\_view.js).
\<close>

definition locationManager_isOpen :: "string \<Rightarrow> bool" where
  "locationManager_isOpen station = True"

text \<open>
  The arrow function that both the request handler and the polling callback map over the
  supplier data:
  \<^verbatim>\<open>
  stationData => {
      const stationInfo = stationInfoMap[stationData.id];
      return {
          id: stationData.id,
          name: stationInfo?.name || `Station ${stationData.id}`,
          address: stationInfo?.address || '',
          coordinates: stationInfo?.coordinates || [0, 0],
          hours: stationInfo?.hours || null,
          isOpen: stationInfo?.hours ? locationManager.isOpen(stationData.id) : true,
          available: stationData.available || 0,
          occupied: stationData.occupied || 0,
          error: stationData.error || false
      };
  }
  \<close>
\<close>

definition mergeStation :: "(string \<rightharpoonup> station_info) \<Rightarrow> station_data \<Rightarrow> json" where
  "mergeStation stationInfoMap stationData =
     (let stationInfo = js_get stationInfoMap (sd_id stationData)
      in JObj
          [(''id'', JStr (sd_id stationData)),
           (''name'', js_or (stationInfo_name stationInfo) (JStr (''Station '' @ sd_id stationData))),
           (''address'', js_or (stationInfo_field address stationInfo) (JStr [])),
           (''coordinates'', js_or (stationInfo_field coordinates stationInfo) (JArr [JNum 0, JNum 0])),
           (''hours'', js_or (stationInfo_field hours stationInfo) JNull),
           (''isOpen'', JBool (if truthy (stationInfo_field hours stationInfo)
                               then locationManager_isOpen (sd_id stationData) else True)),
           (''available'', js_or (available stationData) (JNum 0)),
           (''occupied'', js_or (occupied stationData) (JNum 0)),
           (''error'', js_or (error stationData) (JBool False))])"

text \<open>A property of an object literal.\<close>

fun js_prop :: "json \<Rightarrow> string \<Rightarrow> json" where
  "js_prop (JObj kvs) key = (case map_of kvs key of Some v \<Rightarrow> v | None \<Rightarrow> JNull)"
| "js_prop v key = JNull"

text \<open>
  An awaited call into a module that is not part of the sources at hand: the promise is
  fulfilled with a value or rejected.
\<close>

datatype 'a promise = Fulfilled 'a | RejectedWith string

text \<open>
  \<^verbatim>\<open>
  app.get('/api/stations', async (req, res) => {
      const cachedData = getCachedData('stations');
      if (cachedData) { return res.json(cachedData); }
      try {
          const allStations = await locationManager.getAll();
          const stationIds = allStations.map(s => s.id);
          const stationsData = await supplierApi.fetchMultipleStations(stationIds);
          ... stationInfoMap, stations as above ...
          apiCache.set('stations', { data: stations, timestamp: Date.now() });
          res.json(stations);
      } catch (error) {
          res.status(500).json({ error: 'Failed to fetch station data' });
      }
  });
  \<close>
  \<^verbatim>\<open>locationManager.getAll\<close> catches its own errors and always yields a list, passed in as
  \<open>allStations\<close>; \<^verbatim>\<open>supplierApi.fetchMultipleStations\<close> is a parameter.
\<close>

definition stationsHandler ::
  "station_info list \<Rightarrow> (string list \<Rightarrow> station_data list promise) \<Rightarrow> int \<Rightarrow> int \<Rightarrow> server_state
     \<Rightarrow> response \<times> server_state"
where
  "stationsHandler allStations fetchMultipleStations now later st =
     (let cachedData = fst (getCachedData now (apiCache st) ''stations'');
          st1 = st\<lparr>apiCache := snd (getCachedData now (apiCache st) ''stations'')\<rparr>
      in if truthy cachedData then (\<lparr>status = 200, body = cachedData\<rparr>, st1)
         else
           (case fetchMultipleStations (map si_id allStations) of
              Fulfilled stationsData \<Rightarrow>
                (let stations = JArr (map (mergeStation (buildStationInfoMap allStations)) stationsData)
                 in (\<lparr>status = 200, body = stations\<rparr>,
                     st1\<lparr>apiCache := apiCache_set later (apiCache st1) ''stations'' stations\<rparr>))
            | RejectedWith e \<Rightarrow>
                (\<lparr>status = 500, body = error_body ''Failed to fetch station data''\<rparr>, st1)))"

section \<open>Background polling (server.js, lines 419--494)\<close>

text \<open>
  What the polling callbacks work on: the state of the server and the console. A callback
  is called as \<^verbatim>\<open>callback(error, data)\<close>; \<open>error\<close> is \<open>None\<close> for \<^verbatim>\<open>null\<close> and \<open>Some m\<close> for
  an \<^verbatim>\<open>Error\<close> object with message \<open>m\<close>; \<open>data\<close> is \<open>None\<close> for \<^verbatim>\<open>null\<close>/\<^verbatim>\<open>undefined\<close>. A
  callback returns the new state, or \<open>Inl\<close> with the message of an exception that leaves
  it.
\<close>

record poll_state = server_state +
  console :: "string list"

text \<open>
  The callback given to \<^verbatim>\<open>supplierApi.pollStationData\<close>:
  \<^verbatim>\<open>
  async (error, data) => {
      if (error) {
          console.error('Error in station polling:', error.message);
      } else {
          try {
              const allStations = await locationManager.getAll();
              ... stationInfoMap ...
              console.log(`Background: Fetched data for ${data.length} stations`);
              const stations = data.map(stationData => ...);
              apiCache.set('stations', { data: stations, timestamp: Date.now() });
          } catch (fetchError) {
              console.error('Error fetching stations in polling callback:', fetchError);
          }
      }
  }
  \<close>
  \<open>allStations\<close> is what \<^verbatim>\<open>locationManager.getAll()\<close> yields at this tick and \<open>now\<close> the clock.
  Reading \<^verbatim>\<open>data.length\<close> of a missing \<open>data\<close> throws inside the \<^verbatim>\<open>try\<close> and is caught.
\<close>

definition stationPollCallback ::
  "station_info list \<Rightarrow> int \<Rightarrow> string option \<Rightarrow> station_data list option \<Rightarrow> poll_state
     \<Rightarrow> string + poll_state"
where
  "stationPollCallback allStations now err dat ps =
     (case err of
        Some message \<Rightarrow>
          Inr (ps\<lparr>console := console ps @ [''Error in station polling: '' @ message]\<rparr>)
      | None \<Rightarrow>
          (case dat of
             None \<Rightarrow>
               Inr (ps\<lparr>console := console ps @
                      [''Error fetching stations in polling callback: TypeError'']\<rparr>)
           | Some stationsData \<Rightarrow>
               Inr (ps\<lparr>console := console ps @
                        [''Background: Fetched data for '' @ digits10 (length stationsData) @ '' stations''],
                      apiCache := apiCache_set now (apiCache ps) ''stations''
                        (JArr (map (mergeStation (buildStationInfoMap allStations)) stationsData))\<rparr>)))"

text \<open>
  The callback given to \<^verbatim>\<open>supplierApi.pollBatteryOrders\<close>:
  \<^verbatim>\<open>
  (error, data) => {
      if (error) {
          console.error('Error in battery orders polling:', error.message);
      } else if (data.success) {
          console.log(`Background: Fetched ${data.data.length} battery orders`);
      }
  }
  \<close>
  \<open>data\<close> is \<^verbatim>\<open>{success, data}\<close>, a flag and the list of orders. Reading \<^verbatim>\<open>data.success\<close> of a
  missing \<open>data\<close> throws, and nothing catches it.
\<close>

definition batteryOrdersCallback ::
  "string option \<Rightarrow> (bool \<times> json list) option \<Rightarrow> poll_state \<Rightarrow> string + poll_state"
where
  "batteryOrdersCallback err dat ps =
     (case err of
        Some message \<Rightarrow>
          Inr (ps\<lparr>console := console ps @ [''Error in battery orders polling: '' @ message]\<rparr>)
      | None \<Rightarrow>
          (case dat of
             None \<Rightarrow> Inl ''TypeError: Cannot read properties of undefined''
           | Some (ok, orders) \<Rightarrow>
               if ok then
                 Inr (ps\<lparr>console := console ps @
                        [''Background: Fetched '' @ digits10 (length orders) @ '' battery orders'']\<rparr>)
               else Inr ps))"

text \<open>
  Modelled from the spec: the timer loops \<^verbatim>\<open>supplierApi.pollStationData(stationIds, interval,
  callback)\<close> and \<^verbatim>\<open>supplierApi.pollBatteryOrders(interval, callback)\<close>, which are not part
  of the sources at hand. The spec (4.3, 5, 7): two independent periodic loops; each tick
  fetches and hands the outcome to the callback; ``errors are logged and the loop
  continues on the existing schedule (no backoff beyond the fixed interval)''; the loops
  ``fire on fixed intervals''; the call returns a stop function, and ``shutdown only stops
  scheduling future ticks''.

  A loop is a timer: its interval, the time at which its next tick is due, and whether it
  is still scheduled.
\<close>

record timer =
  interval :: int
  due :: int
  scheduled :: bool

text \<open>
  Modelled from the spec: the outcome of the fetch of one tick of a loop of
  \<^verbatim>\<open>supplierApi\<close>, a failure with its message or the data fetched.
\<close>

datatype 'a fetched = FetchFailed string | FetchOk 'a

text \<open>
  The process is alive with the state of its callbacks, or it has crashed: Node ends the
  process when an exception leaves a timer callback.
\<close>

datatype 's process = Alive 's | Crashed string

text \<open>
  Modelled from the spec: starting a loop of \<^verbatim>\<open>supplierApi\<close> (\<^verbatim>\<open>pollStationData\<close>,
  \<^verbatim>\<open>pollBatteryOrders\<close>, \<^verbatim>\<open>startEnergoTokenKeepAlive\<close>) at time \<open>now\<close> schedules the first tick
  one interval later.
\<close>

definition poll_start :: "int \<Rightarrow> int \<Rightarrow> timer" where
  "poll_start ms now = \<lparr>interval = ms, due = now + ms, scheduled = True\<rparr>"

text \<open>
  Modelled from the spec: the stop function that starting a loop returns; it ``only stops
  scheduling future ticks''.
\<close>

definition poll_stop :: "timer \<Rightarrow> timer" where
  "poll_stop t = t\<lparr>scheduled := False\<rparr>"

text \<open>
  Modelled from the spec: one tick of a loop of \<^verbatim>\<open>supplierApi\<close>. The tick calls the callback
  with \<^verbatim>\<open>(error, null)\<close> when the fetch failed and with \<^verbatim>\<open>(null, data)\<close> otherwise, and the
  next tick is due one interval later, whatever the outcome. A loop that has been stopped
  does nothing.
\<close>

fun poll_tick ::
  "(string option \<Rightarrow> 'a option \<Rightarrow> 's \<Rightarrow> string + 's) \<Rightarrow> 'a fetched \<Rightarrow> timer \<times> 's process
     \<Rightarrow> timer \<times> 's process"
where
  "poll_tick callback outcome (t, Crashed e) = (t, Crashed e)"
| "poll_tick callback outcome (t, Alive s) =
     (if scheduled t then
        (case (case outcome of
                 FetchFailed message \<Rightarrow> callback (Some message) None s
               | FetchOk d \<Rightarrow> callback None (Some d) s) of
           Inr s' \<Rightarrow> (t\<lparr>due := due t + interval t\<rparr>, Alive s')
         | Inl e \<Rightarrow> (t, Crashed e))
      else (t, Alive s))"

text \<open>
  Modelled from the spec: a run of the station loop, tick after tick, with the callback of
  server.js. Each tick comes with what \<^verbatim>\<open>locationManager.getAll()\<close> yields at that tick and
  with the outcome of the supplier fetch; the clock at a tick is the time at which the
  tick was due.
\<close>

fun station_poll_run ::
  "(station_info list \<times> station_data list fetched) list \<Rightarrow> timer \<times> poll_state process
     \<Rightarrow> timer \<times> poll_state process"
where
  "station_poll_run [] tp = tp"
| "station_poll_run ((allStations, outcome) # ticks) tp =
     station_poll_run ticks
       (poll_tick (stationPollCallback allStations (due (fst tp))) outcome tp)"

text \<open>
  Modelled from the spec: a run of the battery-order loop, tick after tick, with the
  callback of server.js. Each tick comes with the outcome of the fetch.
\<close>

fun battery_poll_run ::
  "(bool \<times> json list) fetched list \<Rightarrow> timer \<times> poll_state process \<Rightarrow> timer \<times> poll_state process"
where
  "battery_poll_run [] tp = tp"
| "battery_poll_run (outcome # ticks) tp =
     battery_poll_run ticks (poll_tick batteryOrdersCallback outcome tp)"

section \<open>Startup and shutdown (server.js, lines 393--421, 496--516)\<close>

text \<open>
  What the process does at its top level and in its signal handlers is a sequence of calls
  into modules that are not part of the sources at hand (\<^verbatim>\<open>supplierApi\<close>, \<^verbatim>\<open>qrStats\<close>) and
  into the runtime. Each call is an action; a startup is the list of actions with the time
  (milliseconds since the start) at which each is made.
\<close>

datatype action =
    LoadStats
  | CheckApiHealth
  | StartEnergoTokenKeepAlive string int
  | Listen
  | SetTimeout int
  | PollStationData int
  | PollBatteryOrders int
  | ConsoleLog string
  | SaveStats
  | Exit int

text \<open>
  \<^verbatim>\<open>
  const startBackgroundPolling = async () => {
      console.log('Starting background polling for ChargeNow API...');
      try {
          const allStations = await locationManager.getAll();
          const stationIds = allStations.map(s => s.id);
          stationPollingStop = supplierApi.pollStationData(stationIds, 30000, async (error, data) => ...);
      } catch (error) { ... }
      batteryPollingStop = supplierApi.pollBatteryOrders(60000, (error, data) => ...);
      console.log('Background polling started successfully');
  };
  \<close>
  \<^verbatim>\<open>locationManager.getAll\<close> does not throw, so both loops are started; the time the
  metadata request takes is not counted.
\<close>

definition startBackgroundPolling :: "int \<Rightarrow> (int \<times> action) list" where
  "startBackgroundPolling now =
     [(now, ConsoleLog ''Starting background polling for ChargeNow API...''),
      (now, PollStationData 30000),
      (now, PollBatteryOrders 60000),
      (now, ConsoleLog ''Background polling started successfully'')]"

text \<open>
  \<^verbatim>\<open>
  qrStats.loadStats();
  ...
  supplierApi.checkApiHealth().then(isHealthy => {
      if (isHealthy) {
          console.log('ChargeNow API is healthy');
          startBackgroundPolling();
      } else {
          console.warn('ChargeNow API health check failed, will retry polling in 30 seconds');
          setTimeout(startBackgroundPolling, 30000);
      }
  });
  let energoTokenKeepAliveStop = null;
  energoTokenKeepAliveStop = supplierApi.startEnergoTokenKeepAlive('RL3D52000012', 60000);
  const server = app.listen(PORT, '0.0.0.0', ...);
  \<close>
  \<open>answered\<close> is the time at which the health check's promise is fulfilled, \<open>isHealthy\<close> its
  value. The top level runs to its end before the \<^verbatim>\<open>then\<close> callback does.
\<close>

definition startup :: "int \<Rightarrow> bool \<Rightarrow> (int \<times> action) list" where
  "startup answered isHealthy =
     [(0, LoadStats),
      (0, CheckApiHealth),
      (0, StartEnergoTokenKeepAlive ''RL3D52000012'' 60000),
      (0, Listen)]
     @ (if isHealthy then
          (answered, ConsoleLog ''ChargeNow API is healthy'') # startBackgroundPolling answered
        else
          [(answered, ConsoleLog ''ChargeNow API health check failed, will retry polling in 30 seconds''),
           (answered, SetTimeout 30000)]
          @ startBackgroundPolling (answered + 30000))"

text \<open>
  The three stop handles of the process, each \<^verbatim>\<open>null\<close> (\<open>None\<close>) until its loop is started;
  a started loop is its timer, and calling the stop handle unschedules it.
  \<^verbatim>\<open>
  let stationPollingStop = null;
  let batteryPollingStop = null;
  let energoTokenKeepAliveStop = null;
  \<close>
\<close>

record loops =
  stationPolling :: "timer option"
  batteryPolling :: "timer option"
  energoTokenKeepAlive :: "timer option"

datatype signal = SIGTERM | SIGINT

text \<open>
  \<^verbatim>\<open>
  process.on('SIGTERM', () => {
      console.log('SIGTERM received, shutting down gracefully');
      if (stationPollingStop) stationPollingStop();
      if (batteryPollingStop) batteryPollingStop();
      qrStats.saveStats();
      process.exit(0);
  });
  \<close>
  and the same for \<^verbatim>\<open>SIGINT\<close>. The handler yields the loops as they are when
  \<^verbatim>\<open>process.exit\<close> is called, and the actions in the order they are made.
\<close>

definition on_signal :: "signal \<Rightarrow> loops \<Rightarrow> loops \<times> action list" where
  "on_signal sig l =
     (l\<lparr>stationPolling := map_option poll_stop (stationPolling l),
        batteryPolling := map_option poll_stop (batteryPolling l)\<rparr>,
      [ConsoleLog (case sig of
           SIGTERM \<Rightarrow> ''SIGTERM received, shutting down gracefully''
         | SIGINT \<Rightarrow> ''SIGINT received, shutting down gracefully''),
       SaveStats,
       Exit 0])"

text \<open>The loops of a process whose three loops have all been started, at time 0.\<close>

definition all_loops_running :: loops where
  "all_loops_running =
     \<lparr>stationPolling = Some (poll_start 30000 0),
      batteryPolling = Some (poll_start 60000 0),
      energoTokenKeepAlive = Some (poll_start 60000 0)\<rparr>"

section \<open>The supplier adapter\<close>

text \<open>
  Modelled from the spec: the supplier adapter (the module \<^verbatim>\<open>supplierApi\<close> with
  \<^verbatim>\<open>fetchMultipleStations\<close> and \<^verbatim>\<open>findBatteryById\<close>) is not part of the sources at hand.
  The spec (4.1): ``Given a station id, determines which of two supplier APIs owns it (by
  id pattern or registry) and normalizes the response to the common Station/Battery
  shape. For battery lookup, tries the owning supplier and reports not-found if absent --
  never silently substitutes data from the wrong supplier.''

\<close>

datatype supplier = SupplierA | SupplierB

text \<open>
  Modelled from the spec: the two supplier APIs are what they answer for an id (\<open>None\<close>:
  the supplier does not know the id); the owner of an id is a function of the id (``by id
  pattern or registry'').
\<close>

record 'r suppliers =
  ownerOf :: "string \<Rightarrow> supplier"
  supplierA :: "string \<rightharpoonup> 'r"
  supplierB :: "string \<rightharpoonup> 'r"

definition supplier_api :: "'r suppliers \<Rightarrow> supplier \<Rightarrow> (string \<rightharpoonup> 'r)" where
  "supplier_api env s = (case s of SupplierA \<Rightarrow> supplierA env | SupplierB \<Rightarrow> supplierB env)"

definition other_supplier :: "supplier \<Rightarrow> supplier" where
  "other_supplier s = (case s of SupplierA \<Rightarrow> SupplierB | SupplierB \<Rightarrow> SupplierA)"

text \<open>
  Modelled from the spec: the lookup of a station or battery id by the adapter
  (\<^verbatim>\<open>supplierApi.fetchMultipleStations\<close> for each id, \<^verbatim>\<open>supplierApi.findBatteryById\<close>). It
  ``determines which of two supplier APIs owns'' the id, ``tries the owning supplier and
  reports not-found if absent''. The result is the list of suppliers queried and the
  record found, or \<open>None\<close> for not-found.
\<close>

definition adapter_lookup :: "'r suppliers \<Rightarrow> string \<Rightarrow> supplier list \<times> 'r option" where
  "adapter_lookup env ident =
     (let owner = ownerOf env ident in ([owner], supplier_api env owner ident))"

text \<open>The same suppliers, with what one of them answers replaced.\<close>

definition with_api :: "'r suppliers \<Rightarrow> supplier \<Rightarrow> (string \<rightharpoonup> 'r) \<Rightarrow> 'r suppliers" where
  "with_api env s answers =
     (case s of SupplierA \<Rightarrow> env\<lparr>supplierA := answers\<rparr> | SupplierB \<Rightarrow> env\<lparr>supplierB := answers\<rparr>)"

section \<open>Durations (scan\_service.js, lines 6--25)\<close>

text \<open>
  The two functions compute with JavaScript numbers, which are doubles. Every number in
  them is an integer, and the embedding computes with unbounded naturals and integers.
  This is what the doubles do as long as no operation has to round: for
  \<^verbatim>\<open>formatSecondsToDuration\<close> on every argument up to \<open>2^53 - 1\<close>
  (\<^verbatim>\<open>Number.MAX_SAFE_INTEGER\<close>; the quotient \<^verbatim>\<open>totalSeconds / 3600\<close> is then below \<open>2^42\<close>, where
  the rounding error of the division, at most \<open>2^-12\<close>, cannot reach the next integer,
  at least \<open>1/3600\<close> away), and on a larger argument that is a double and a multiple of 3600
  with a double as quotient. Where a conversion rounds by itself it is modelled with its
  rounding: \<^verbatim>\<open>String(x)\<close> prints the shortest decimal that rounds to \<open>x\<close>, and
  \<^verbatim>\<open>parseInt\<close> and the arithmetic of \<^verbatim>\<open>parseDurationToSeconds\<close> yield the double nearest to
  the exact result. Numbers are below \<open>2^1024\<close> (no \<^verbatim>\<open>Infinity\<close>).
\<close>

text \<open>The number of binary digits of a natural number.\<close>

fun bit_length :: "nat \<Rightarrow> nat" where
  "bit_length n = (if n = 0 then 0 else Suc (bit_length (n div 2)))"

text \<open>
  The double nearest to a natural number, ties to the even significand: a natural number
  of at most 53 binary digits is a double; a longer one is rounded to its 53 leading
  binary digits.
\<close>

definition round_double :: "nat \<Rightarrow> nat" where
  "round_double m =
     (if m < 2 ^ 53 then m
      else
        (let sh = bit_length m - 53;
             q = m div 2 ^ sh;
             r = m mod 2 ^ sh;
             half = 2 ^ (sh - 1)
         in (if r < half then q
             else if half < r then q + 1
             else if even q then q else q + 1) * 2 ^ sh))"

definition round_double_int :: "int \<Rightarrow> int" where
  "round_double_int i = (if i < 0 then - int (round_double (nat (- i))) else int (round_double (nat i)))"

text \<open>
  \<^verbatim>\<open>String(x)\<close> for a double \<open>x\<close> that is a natural number (ECMAScript, Number::toString):
  with \<open>k\<close> as small as possible, the decimal \<open>s * 10^(n - k)\<close> of \<open>k\<close> significant digits
  that rounds to \<open>x\<close> (the closest to \<open>x\<close> if there are two, the even \<open>s\<close> if they are
  equally close); it is printed in full when \<open>n \<le> 21\<close>, and otherwise as its first digit,
  a point and the other digits if there are any, and \<open>e+\<close> with the exponent \<open>n - 1\<close>.
  \<open>shortest_decimal x n ks\<close> tries the numbers of digits \<open>ks\<close> in turn, \<open>n\<close> being the number
  of decimal digits of \<open>x\<close>.
\<close>

fun shortest_decimal :: "nat \<Rightarrow> nat \<Rightarrow> nat list \<Rightarrow> nat" where
  "shortest_decimal x n [] = x"
| "shortest_decimal x n (k # ks) =
     (let p = 10 ^ (n - k);
          lo = (x div p) * p;
          hi = lo + p
      in if round_double lo = x then
           (if round_double hi = x then
              (if x - lo < hi - x then lo
               else if hi - x < x - lo then hi
               else if even (x div p) then lo else hi)
            else lo)
         else if round_double hi = x then hi
         else shortest_decimal x n ks)"

definition js_String :: "nat \<Rightarrow> string" where
  "js_String x =
     (let n = length (digits10 x);
          v = shortest_decimal x n [1..<Suc n];
          ds = rev (dropWhile (\<lambda>c. c = CHR ''0'') (rev (digits10 v)))
      in if length (digits10 v) \<le> 21 then digits10 v
         else (if length ds = 1 then ds else hd ds # CHR ''.'' # tl ds)
              @ ''e+'' @ digits10 (length (digits10 v) - 1))"

text \<open>\<^verbatim>\<open>s.padStart(2, '0')\<close>\<close>

definition padStart2 :: "string \<Rightarrow> string" where
  "padStart2 s = replicate (2 - length s) CHR ''0'' @ s"

text \<open>
  \<^verbatim>\<open>
  function formatSecondsToDuration(totalSeconds) {
      const hours = Math.floor(totalSeconds / 3600);
      const minutes = Math.floor((totalSeconds % 3600) / 60);
      const seconds = totalSeconds % 60;
      return `${String(hours).padStart(2, '0')}:${String(minutes).padStart(2, '0')}:${String(seconds).padStart(2, '0')}`;
  }
  \<close>
\<close>

definition formatSecondsToDuration :: "nat \<Rightarrow> string" where
  "formatSecondsToDuration totalSeconds =
     (let hours = totalSeconds div 3600;
          minutes = (totalSeconds mod 3600) div 60;
          seconds = totalSeconds mod 60
      in padStart2 (js_String hours) @ '':'' @ padStart2 (js_String minutes) @ '':''
           @ padStart2 (js_String seconds))"

text \<open>\<^verbatim>\<open>s.split(c)\<close>: the parts of \<open>s\<close> between the occurrences of \<open>c\<close>.\<close>

fun split_on :: "char \<Rightarrow> string \<Rightarrow> string list" where
  "split_on c [] = [[]]"
| "split_on c (x # xs) =
     (if x = c then [] # split_on c xs
      else (case split_on c xs of p # ps \<Rightarrow> (x # p) # ps | [] \<Rightarrow> [[x]]))"

text \<open>
  \<^verbatim>\<open>parseInt(s, 10)\<close>: leading white space is skipped, a sign is read, and the longest
  run of decimal digits that follows is the value, rounded to the nearest double; with
  no digit there the result is \<^verbatim>\<open>NaN\<close>, which is \<open>None\<close> here.
\<close>

definition is_digit :: "char \<Rightarrow> bool" where
  "is_digit c = (c \<in> set ''0123456789'')"

definition digit_val :: "char \<Rightarrow> nat" where
  "digit_val c = of_char c - 48"

definition digits_value :: "string \<Rightarrow> nat" where
  "digits_value ds = foldl (\<lambda>a c. 10 * a + digit_val c) 0 ds"

definition parse_digits :: "string \<Rightarrow> int option" where
  "parse_digits u =
     (let ds = takeWhile is_digit u
      in if ds = [] then None else Some (int (round_double (digits_value ds))))"

definition parseInt10 :: "string \<Rightarrow> int option" where
  "parseInt10 s =
     (case dropWhile is_ws s of
        [] \<Rightarrow> None
      | c # r \<Rightarrow>
          if c = CHR ''-'' then map_option uminus (parse_digits r)
          else if c = CHR ''+'' then parse_digits r
          else parse_digits (c # r))"

text \<open>\<^verbatim>\<open>parseInt(s, 10) || 0\<close>: \<^verbatim>\<open>NaN\<close> and zero give 0.\<close>

definition or0 :: "int option \<Rightarrow> int" where
  "or0 v = (case v of None \<Rightarrow> 0 | Some i \<Rightarrow> i)"

text \<open>
  \<^verbatim>\<open>
  function parseDurationToSeconds(durationString) {
      const parts = durationString.split(':');
      if (parts.length !== 3) return 0;
      const hours = parseInt(parts[0], 10) || 0;
      const minutes = parseInt(parts[1], 10) || 0;
      const seconds = parseInt(parts[2], 10) || 0;
      return hours * 3600 + minutes * 60 + seconds;
  }
  \<close>
\<close>

definition parseDurationToSeconds :: "string \<Rightarrow> int" where
  "parseDurationToSeconds durationString =
     (let parts = split_on CHR '':'' durationString
      in if length parts \<noteq> 3 then 0
         else
           (let hours = or0 (parseInt10 (parts ! 0));
                minutes = or0 (parseInt10 (parts ! 1));
                seconds = or0 (parseInt10 (parts ! 2))
            in round_double_int
                 (round_double_int (round_double_int (hours * 3600) + round_double_int (minutes * 60))
                  + seconds)))"

section \<open>Sample data for the concrete instances\<close>

text \<open>
  The static table \<^verbatim>\<open>./public/batteryIdMap\<close> is configuration that is not part of the
  sources at hand, so the functions above take it as a parameter. The concrete instances
  below use a table of three entries, a real id, a blank one and a missing one, three
  supplier replies and two cache states.
\<close>

definition sample_batteryIdMap :: "string \<rightharpoonup> real_id" where
  "sample_batteryIdMap = [''B001'' \<mapsto> RStr ''R1'', ''B002'' \<mapsto> RStr ''  '', ''B003'' \<mapsto> RNull]"

definition reply_not_found :: "string \<Rightarrow> adapter_reply" where
  "reply_not_found realBatteryId = Resolved False JNull JNull"

definition reply_found :: "string \<Rightarrow> adapter_reply" where
  "reply_found realBatteryId =
     Resolved True (JObj [(''manufactureId'', JStr realBatteryId), (''duration'', JStr ''00:10:00'')]) JNull"

definition reply_rejected :: "string \<Rightarrow> adapter_reply" where
  "reply_rejected realBatteryId = Rejected ''ECONNRESET''"

definition stale_state :: server_state where
  "stale_state = \<lparr>apiCache = [''battery_R1'' \<mapsto> \<lparr>data = JStr ''old'', timestamp = 0\<rparr>],
                  supplierCalls = []\<rparr>"

definition fresh_state :: server_state where
  "fresh_state = \<lparr>apiCache = [''battery_R1'' \<mapsto> \<lparr>data = JStr ''old'', timestamp = 15000\<rparr>],
                  supplierCalls = []\<rparr>"

text \<open>
  A station that the supplier reports and no metadata record describes, the supplier call
  that returns it, and a server that has not served or logged anything yet.
\<close>

definition orphan_station :: station_data where
  "orphan_station = \<lparr>sd_id = ''constructor'', available = JNum 3, occupied = JNum 1, error = JNull\<rparr>"

definition fetch_orphan :: "string list \<Rightarrow> station_data list promise" where
  "fetch_orphan stationIds = Fulfilled [orphan_station]"

definition idle_server :: server_state where
  "idle_server = \<lparr>apiCache = Map.empty, supplierCalls = []\<rparr>"

definition idle_poller :: poll_state where
  "idle_poller = \<lparr>apiCache = Map.empty, supplierCalls = [], console = []\<rparr>"

text \<open>
  Two suppliers: ids that start with \<open>R\<close> belong to supplier A, the others to supplier B;
  the battery \<open>RB7\<close> is unknown to its owner A, while supplier B has a record under the
  same id.
\<close>

definition owner_by_prefix :: "string \<Rightarrow> supplier" where
  "owner_by_prefix ident = (if take 1 ident = ''R'' then SupplierA else SupplierB)"

definition two_suppliers :: "string suppliers" where
  "two_suppliers =
     \<lparr>ownerOf = owner_by_prefix,
      supplierA = [''RA1'' \<mapsto> ''battery RA1 at A''],
      supplierB = [''RB7'' \<mapsto> ''battery RB7 at B'', ''E55'' \<mapsto> ''battery E55 at B'']\<rparr>"

section \<open>Properties of the cache\<close>

lemma getCachedData_fresh:
  assumes "cache key = Some cached" and "now - timestamp cached < CACHE_TTL"
  shows "getCachedData now cache key = (data cached, cache)"
  using assms by (simp add: getCachedData_def)

lemma getCachedData_stale:
  assumes "cache key = Some cached" and "\<not> now - timestamp cached < CACHE_TTL"
  shows "getCachedData now cache key = (JNull, cache(key := None))"
  using assms by (simp add: getCachedData_def)

lemma getCachedData_absent:
  assumes "cache key = None"
  shows "getCachedData now cache key = (JNull, cache(key := None))"
  using assms by (simp add: getCachedData_def)

text \<open>
  Claim C1. For every key, \<open>getCachedData\<close> returns the stored payload, and leaves the
  map as it is, when an entry exists and the current time minus its timestamp is strictly
  below the 10000 ms TTL; in every other case (entry stale, or no entry) it returns null
  and the key is no longer in the map, the other keys being untouched. The write stores
  the payload under the key with the current time as timestamp, so that a read within
  the TTL returns it and a read at or after the TTL returns null.
\<close>

theorem C1_cache_get_set:
  "(cache key = Some cached \<and> now - timestamp cached < CACHE_TTL \<longrightarrow>
      getCachedData now cache key = (data cached, cache))
   \<and> (\<not> (\<exists>c. cache key = Some c \<and> now - timestamp c < CACHE_TTL) \<longrightarrow>
      fst (getCachedData now cache key) = JNull
      \<and> snd (getCachedData now cache key) key = None
      \<and> (\<forall>k. k \<noteq> key \<longrightarrow> snd (getCachedData now cache key) k = cache k))
   \<and> apiCache_set now cache key d key = Some \<lparr>data = d, timestamp = now\<rparr>
   \<and> (\<forall>k. k \<noteq> key \<longrightarrow> apiCache_set now cache key d k = cache k)
   \<and> (later - now < 10000 \<longrightarrow>
        getCachedData later (apiCache_set now cache key d) key
          = (d, apiCache_set now cache key d))
   \<and> (\<not> later - now < 10000 \<longrightarrow>
        getCachedData later (apiCache_set now cache key d) key = (JNull, cache(key := None)))"
proof -
  have fresh: "cache key = Some cached \<and> now - timestamp cached < CACHE_TTL \<longrightarrow>
      getCachedData now cache key = (data cached, cache)"
    by (simp add: getCachedData_fresh)
  have other: "\<not> (\<exists>c. cache key = Some c \<and> now - timestamp c < CACHE_TTL) \<longrightarrow>
      fst (getCachedData now cache key) = JNull
      \<and> snd (getCachedData now cache key) key = None
      \<and> (\<forall>k. k \<noteq> key \<longrightarrow> snd (getCachedData now cache key) k = cache k)"
    by (cases "cache key") (auto simp: getCachedData_def)
  have stored: "apiCache_set now cache key d key = Some \<lparr>data = d, timestamp = now\<rparr>"
    by (simp add: apiCache_set_def)
  have rest: "\<forall>k. k \<noteq> key \<longrightarrow> apiCache_set now cache key d k = cache k"
    by (simp add: apiCache_set_def)
  have before: "later - now < 10000 \<longrightarrow>
        getCachedData later (apiCache_set now cache key d) key
          = (d, apiCache_set now cache key d)"
    by (simp add: getCachedData_def apiCache_set_def CACHE_TTL_def)
  have after: "\<not> later - now < 10000 \<longrightarrow>
        getCachedData later (apiCache_set now cache key d) key = (JNull, cache(key := None))"
    by (simp add: getCachedData_def apiCache_set_def CACHE_TTL_def)
  from fresh other stored rest before after show ?thesis by blast
qed

theorem C1_cache_get_set_witness:
  "getCachedData 1009999 [''stations'' \<mapsto> \<lparr>data = JArr [], timestamp = 1000000\<rparr>] ''stations''
     = (JArr [], [''stations'' \<mapsto> \<lparr>data = JArr [], timestamp = 1000000\<rparr>])
   \<and> fst (getCachedData 1010000 [''stations'' \<mapsto> \<lparr>data = JArr [], timestamp = 1000000\<rparr>] ''stations'')
       = JNull
   \<and> snd (getCachedData 1010000 [''stations'' \<mapsto> \<lparr>data = JArr [], timestamp = 1000000\<rparr>] ''stations'')
       ''stations'' = None
   \<and> getCachedData 1005000 (apiCache_set 1000000 Map.empty ''battery_R1'' (JStr ''x'')) ''battery_R1''
       = (JStr ''x'', apiCache_set 1000000 Map.empty ''battery_R1'' (JStr ''x''))
   \<and> getCachedData 1010000 (apiCache_set 1000000 Map.empty ''battery_R1'' (JStr ''x'')) ''battery_R1''
       = (JNull, Map.empty(''battery_R1'' := None))"
proof -
  let ?c = "[''stations'' \<mapsto> \<lparr>data = JArr [], timestamp = 1000000\<rparr>]"
  let ?e = "\<lparr>data = JArr [], timestamp = 1000000\<rparr>"
  have a: "?c ''stations'' = Some ?e \<and> 1009999 - timestamp ?e < CACHE_TTL"
    by (simp add: CACHE_TTL_def)
  have b: "\<not> (\<exists>c. ?c ''stations'' = Some c \<and> 1010000 - timestamp c < CACHE_TTL)"
    by (simp add: CACHE_TTL_def)
  note t1 = C1_cache_get_set [where cache = ?c and key = "''stations''" and cached = ?e
      and now = 1009999]
  note t2 = C1_cache_get_set [where cache = ?c and key = "''stations''" and cached = ?e
      and now = 1010000]
  note t3 = C1_cache_get_set [where cache = Map.empty and key = "''battery_R1''"
      and now = 1000000 and d = "JStr ''x''" and later = 1005000]
  note t4 = C1_cache_get_set [where cache = Map.empty and key = "''battery_R1''"
      and now = 1000000 and d = "JStr ''x''" and later = 1010000]
  from t1 a have g1: "getCachedData 1009999 ?c ''stations'' = (data ?e, ?c)" by blast
  from t2 b have g2: "fst (getCachedData 1010000 ?c ''stations'') = JNull
      \<and> snd (getCachedData 1010000 ?c ''stations'') ''stations'' = None" by blast
  from t3 have g3: "getCachedData 1005000 (apiCache_set 1000000 Map.empty ''battery_R1'' (JStr ''x'')) ''battery_R1''
       = (JStr ''x'', apiCache_set 1000000 Map.empty ''battery_R1'' (JStr ''x''))" by simp
  from t4 have g4: "getCachedData 1010000 (apiCache_set 1000000 Map.empty ''battery_R1'' (JStr ''x'')) ''battery_R1''
       = (JNull, Map.empty(''battery_R1'' := None))" by simp
  from g1 g2 g3 g4 show ?thesis by simp
qed

section \<open>Properties of the battery route\<close>

lemma js_in_iff: "js_in key obj = (obj key \<noteq> None \<or> map_of Object_prototype key \<noteq> None)"
  by (simp add: js_in_def js_get_def split: option.splits)

lemma validateBatteryId_Next:
  "validateBatteryId batteryIdMap batteryId = Next
     = (batteryId \<noteq> [] \<and> (\<exists>s. batteryIdMap batteryId = Some (RStr s) \<and> js_trim s \<noteq> []))"
  by (auto simp: validateBatteryId_def js_in_def js_get_def js_trim_def
      split: option.splits real_id.splits property.splits)

lemma validated_route:
  assumes "validateBatteryId batteryIdMap batteryId = Next"
    and "batteryIdMap batteryId = Some (RStr realBatteryId)"
  shows "battery_route production batteryIdMap findBatteryById now later st batteryId
           = batteryHandler findBatteryById now later st realBatteryId"
  using assms by (simp add: battery_route_def js_get_def)

lemma absent_key_400:
  assumes "batteryIdMap batteryId = None" and "map_of Object_prototype batteryId = None"
  shows "battery_route production batteryIdMap findBatteryById now later st batteryId
     = (\<lparr>status = 400, body = error_body ''Invalid battery ID''\<rparr>, st)"
  using assms by (simp add: battery_route_def validateBatteryId_def js_in_def js_get_def)

lemma inherited_name_500:
  assumes "batteryId \<noteq> []" and "batteryIdMap batteryId = None"
    and "map_of Object_prototype batteryId = Some m"
  shows "battery_route production batteryIdMap findBatteryById now later st batteryId
     = (globalErrorHandler production ''realBatteryId.trim is not a function'', st)"
  using assms by (simp add: battery_route_def validateBatteryId_def js_in_def js_get_def)

lemma absent_key_no_supplier_call:
  assumes "batteryIdMap batteryId = None"
  shows "snd (battery_route production batteryIdMap findBatteryById now later st batteryId) = st"
  using assms
  by (simp add: battery_route_def validateBatteryId_def js_in_def js_get_def split: option.splits)

text \<open>
  Claim C2 says that every battery id absent from the static table is answered with
  status 400 and a JSON error body, before any supplier call. The code decides absence
  with \<^verbatim>\<open>batteryId in batteryIdMap\<close>, which is also true for the names inherited from
  \<^verbatim>\<open>Object.prototype\<close>. For the request \<^verbatim>\<open>GET /api/battery/constructor\<close> the id is not a key
  of the table, the check lets it pass, \<^verbatim>\<open>realBatteryId.trim()\<close> throws, and the global
  error handler answers with status 500; no supplier call is made and the state is
  untouched. (For absent ids that are not such a name the answer is 400, lemma
  \<open>absent_key_400\<close>; no absent id leads to a supplier call, lemma
  \<open>absent_key_no_supplier_call\<close>.)
\<close>

theorem C2_inherited_name_gets_500:
  "sample_batteryIdMap ''constructor'' = None
   \<and> battery_route production sample_batteryIdMap findBatteryById now later st ''constructor''
     = (\<lparr>status = 500,
         body = error_body (if production then ''Internal server error''
                            else ''realBatteryId.trim is not a function'')\<rparr>, st)"
  by (simp add: battery_route_def validateBatteryId_def js_in_def js_get_def
      Object_prototype_def globalErrorHandler_def sample_batteryIdMap_def)

text \<open>
  Claim C8 says that an id that is in the table without a usable real id is answered with
  status 404. The middleware answers it with status 400: here for the id \<open>B002\<close>, whose
  entry is blank.
\<close>

theorem C8_unconfigured_not_404:
  "sample_batteryIdMap ''B002'' = Some (RStr ''  '')
   \<and> status (fst (battery_route False sample_batteryIdMap reply_not_found 0 0
        \<lparr>apiCache = Map.empty, supplierCalls = []\<rparr> ''B002'')) \<noteq> 404"
  by (simp add: battery_route_def validateBatteryId_def js_in_def js_get_def
      sample_batteryIdMap_def js_trim_def is_ws_def)

text \<open>
  Claim C8, amended. For every request whose battery id is a key of the static table with
  a value that is null, empty or blank, the server responds with status 400 and the JSON
  error body \<^verbatim>\<open>{error: "Battery ID not configured"}\<close> (\<^verbatim>\<open>{error: "Invalid battery ID"}\<close> when
  the id itself is the empty string), and the state is unchanged: no supplier call, no
  cache access.
\<close>

theorem C8_unconfigured_is_400:
  assumes "batteryIdMap batteryId = Some v"
    and "v = RNull \<or> (\<exists>s. v = RStr s \<and> js_trim s = [])"
  shows "battery_route production batteryIdMap findBatteryById now later st batteryId
     = (\<lparr>status = 400,
         body = error_body (if batteryId = [] then ''Invalid battery ID''
                            else ''Battery ID not configured'')\<rparr>, st)"
  using assms
  by (auto simp: battery_route_def validateBatteryId_def js_in_def js_get_def js_trim_def)

theorem C8_unconfigured_is_400_witness:
  "battery_route True sample_batteryIdMap reply_not_found 5 6
      \<lparr>apiCache = Map.empty, supplierCalls = []\<rparr> ''B002''
     = (\<lparr>status = 400, body = error_body ''Battery ID not configured''\<rparr>,
        \<lparr>apiCache = Map.empty, supplierCalls = []\<rparr>)
   \<and> battery_route True sample_batteryIdMap reply_not_found 5 6
      \<lparr>apiCache = Map.empty, supplierCalls = []\<rparr> ''B003''
     = (\<lparr>status = 400, body = error_body ''Battery ID not configured''\<rparr>,
        \<lparr>apiCache = Map.empty, supplierCalls = []\<rparr>)"
proof -
  have a: "sample_batteryIdMap ''B002'' = Some (RStr ''  '')"
    by (simp add: sample_batteryIdMap_def)
  have b: "RStr ''  '' = RNull \<or> (\<exists>s. RStr ''  '' = RStr s \<and> js_trim s = [])"
    by (simp add: js_trim_def is_ws_def)
  have c: "sample_batteryIdMap ''B003'' = Some RNull"
    by (simp add: sample_batteryIdMap_def)
  have d: "RNull = RNull \<or> (\<exists>s. RNull = RStr s \<and> js_trim s = [])"
    by simp
  show ?thesis
    using C8_unconfigured_is_400 [where batteryIdMap = sample_batteryIdMap
        and batteryId = "''B002''" and v = "RStr ''  ''", OF a b]
      C8_unconfigured_is_400 [where batteryIdMap = sample_batteryIdMap
        and batteryId = "''B003''" and v = RNull, OF c d]
    by simp
qed

lemma getCachedData_snd:
  "snd (getCachedData now cache key)
     = (if (\<exists>c. cache key = Some c \<and> now - timestamp c < CACHE_TTL) then cache
        else cache(key := None))"
  by (auto simp: getCachedData_def split: option.splits)

lemma getCachedData_truthy:
  "truthy (fst (getCachedData now cache key))
     = (\<exists>c. cache key = Some c \<and> now - timestamp c < CACHE_TTL \<and> truthy (data c))"
  by (auto simp: getCachedData_def split: option.splits)

lemma batteryHandler_hit:
  assumes "apiCache st (''battery_'' @ realBatteryId) = Some e"
    and "now - timestamp e < CACHE_TTL" and "truthy (data e)"
  shows "batteryHandler findBatteryById now later st realBatteryId
           = (\<lparr>status = 200, body = data e\<rparr>, st)"
  using assms by (simp add: batteryHandler_def getCachedData_def)

lemma batteryHandler_miss:
  assumes "\<not> (\<exists>c. apiCache st (''battery_'' @ realBatteryId) = Some c
              \<and> now - timestamp c < CACHE_TTL \<and> truthy (data c))"
  shows "batteryHandler findBatteryById now later st realBatteryId
     = (case findBatteryById realBatteryId of
          Resolved ok d err \<Rightarrow>
            if ok then
              (\<lparr>status = 200, body = d\<rparr>,
               \<lparr>apiCache = apiCache_set later
                    (snd (getCachedData now (apiCache st) (''battery_'' @ realBatteryId)))
                    (''battery_'' @ realBatteryId) d,
                supplierCalls = supplierCalls st @ [realBatteryId]\<rparr>)
            else
              (\<lparr>status = 404, body = JObj [(''error'', js_or err (JStr ''Battery not found''))]\<rparr>,
               \<lparr>apiCache = snd (getCachedData now (apiCache st) (''battery_'' @ realBatteryId)),
                supplierCalls = supplierCalls st @ [realBatteryId]\<rparr>)
        | Rejected m \<Rightarrow>
            (\<lparr>status = 500, body = error_body ''Internal server error''\<rparr>,
             \<lparr>apiCache = snd (getCachedData now (apiCache st) (''battery_'' @ realBatteryId)),
              supplierCalls = supplierCalls st @ [realBatteryId]\<rparr>))"
proof -
  have "\<not> truthy (fst (getCachedData now (apiCache st) (''battery_'' @ realBatteryId)))"
    using assms by (simp add: getCachedData_truthy)
  then show ?thesis
    by (simp add: batteryHandler_def Let_def split: adapter_reply.splits)
qed

text \<open>
  Claim C9 says that when the adapter reports failure or throws, the cache is left
  unchanged. The handler reads the cache first, and that read removes a stale entry: with
  a stale entry under the request's key and a supplier that does not find the battery,
  the response is 404 and the cache afterwards is not the cache before.
\<close>

theorem C9_failed_lookup_evicts_stale_entry:
  "validateBatteryId sample_batteryIdMap ''B001'' = Next
   \<and> status (fst (battery_route False sample_batteryIdMap reply_not_found 20000 20001
                     stale_state ''B001'')) = 404
   \<and> apiCache (snd (battery_route False sample_batteryIdMap reply_not_found 20000 20001
                     stale_state ''B001'')) \<noteq> apiCache stale_state"
proof -
  let ?R = "battery_route False sample_batteryIdMap reply_not_found 20000 20001 stale_state ''B001''"
  have v: "validateBatteryId sample_batteryIdMap ''B001'' = Next"
    by (simp add: validateBatteryId_Next js_trim_def is_ws_def sample_batteryIdMap_def)
  have real: "sample_batteryIdMap ''B001'' = Some (RStr ''R1'')"
    by (simp add: sample_batteryIdMap_def)
  have r: "?R = batteryHandler reply_not_found 20000 20001 stale_state ''R1''"
    using v real by (rule validated_route)
  have h: "batteryHandler reply_not_found 20000 20001 stale_state ''R1''
      = (\<lparr>status = 404, body = JObj [(''error'', JStr ''Battery not found'')]\<rparr>,
         \<lparr>apiCache = (apiCache stale_state)(''battery_R1'' := None), supplierCalls = [''R1'']\<rparr>)"
    by (simp add: batteryHandler_def getCachedData_def stale_state_def CACHE_TTL_def
        reply_not_found_def js_or_def)
  have s: "status (fst ?R) = 404" by (simp add: r h)
  have "apiCache (snd ?R) ''battery_R1'' = None" by (simp add: r h)
  moreover have "apiCache stale_state ''battery_R1'' \<noteq> None" by (simp add: stale_state_def)
  ultimately have c: "apiCache (snd ?R) \<noteq> apiCache stale_state" by metis
  from v s c show ?thesis by simp
qed

text \<open>
  Claim C9, amended. For every validated request, with \<open>key\<close> the cache key of its real
  battery id: if a fresh entry with a truthy payload is cached under \<open>key\<close>, that payload
  is returned with status 200 and nothing else happens (no adapter call, state
  unchanged). Otherwise the adapter is called exactly once, and: when it reports success
  the payload is returned with status 200 and stored under \<open>key\<close> with the time of the
  reply; when it reports failure the response has status 404 and the JSON body
  \<^verbatim>\<open>{error: result.error || "Battery not found"}\<close>; when it throws the response has status
  500 and the body \<^verbatim>\<open>{error: "Internal server error"}\<close>. In both failure cases nothing is
  stored: the cache is the cache that the read left, which is the cache before the
  request with a stale entry under \<open>key\<close> removed.
\<close>

theorem C9_battery_handler:
  fixes st :: server_state and realBatteryId batteryId :: string
    and batteryIdMap :: "string \<rightharpoonup> real_id" and findBatteryById :: "string \<Rightarrow> adapter_reply"
    and now later :: int and production :: bool
  defines "key \<equiv> ''battery_'' @ realBatteryId"
  defines "R \<equiv> battery_route production batteryIdMap findBatteryById now later st batteryId"
  defines "hit \<equiv> (\<exists>c. apiCache st key = Some c \<and> now - timestamp c < CACHE_TTL \<and> truthy (data c))"
  defines "afterRead \<equiv> (if (\<exists>c. apiCache st key = Some c \<and> now - timestamp c < CACHE_TTL)
                          then apiCache st else (apiCache st)(key := None))"
  assumes valid: "validateBatteryId batteryIdMap batteryId = Next"
    and real: "batteryIdMap batteryId = Some (RStr realBatteryId)"
  shows "(apiCache st key = Some e \<and> now - timestamp e < CACHE_TTL \<and> truthy (data e)
            \<longrightarrow> R = (\<lparr>status = 200, body = data e\<rparr>, st))
     \<and> (\<not> hit \<longrightarrow> supplierCalls (snd R) = supplierCalls st @ [realBatteryId])
     \<and> (\<not> hit \<and> findBatteryById realBatteryId = Resolved True d err
            \<longrightarrow> fst R = \<lparr>status = 200, body = d\<rparr>
                \<and> apiCache (snd R) = afterRead(key \<mapsto> \<lparr>data = d, timestamp = later\<rparr>))
     \<and> (\<not> hit \<and> findBatteryById realBatteryId = Resolved False d err
            \<longrightarrow> fst R = \<lparr>status = 404,
                          body = JObj [(''error'', js_or err (JStr ''Battery not found''))]\<rparr>
                \<and> apiCache (snd R) = afterRead)
     \<and> (\<not> hit \<and> findBatteryById realBatteryId = Rejected m
            \<longrightarrow> fst R = \<lparr>status = 500, body = error_body ''Internal server error''\<rparr>
                \<and> apiCache (snd R) = afterRead)"
proof -
  have R: "R = batteryHandler findBatteryById now later st realBatteryId"
    unfolding R_def using valid real by (rule validated_route)
  have ar: "afterRead = snd (getCachedData now (apiCache st) key)"
    unfolding afterRead_def by (simp add: getCachedData_snd)
  have c1: "apiCache st key = Some e \<and> now - timestamp e < CACHE_TTL \<and> truthy (data e)
            \<longrightarrow> R = (\<lparr>status = 200, body = data e\<rparr>, st)"
    unfolding R key_def by (simp add: batteryHandler_hit)
  have miss: "\<not> hit \<Longrightarrow> R = (case findBatteryById realBatteryId of
          Resolved ok d err \<Rightarrow>
            if ok then
              (\<lparr>status = 200, body = d\<rparr>,
               \<lparr>apiCache = apiCache_set later afterRead key d,
                supplierCalls = supplierCalls st @ [realBatteryId]\<rparr>)
            else
              (\<lparr>status = 404, body = JObj [(''error'', js_or err (JStr ''Battery not found''))]\<rparr>,
               \<lparr>apiCache = afterRead,
                supplierCalls = supplierCalls st @ [realBatteryId]\<rparr>)
        | Rejected m \<Rightarrow>
            (\<lparr>status = 500, body = error_body ''Internal server error''\<rparr>,
             \<lparr>apiCache = afterRead,
              supplierCalls = supplierCalls st @ [realBatteryId]\<rparr>))"
    unfolding R ar hit_def key_def by (rule batteryHandler_miss)
  have c2: "\<not> hit \<longrightarrow> supplierCalls (snd R) = supplierCalls st @ [realBatteryId]"
    using miss by (simp split: adapter_reply.splits)
  have c3: "\<not> hit \<and> findBatteryById realBatteryId = Resolved True d err
            \<longrightarrow> fst R = \<lparr>status = 200, body = d\<rparr>
                \<and> apiCache (snd R) = afterRead(key \<mapsto> \<lparr>data = d, timestamp = later\<rparr>)"
    using miss by (simp add: apiCache_set_def)
  have c4: "\<not> hit \<and> findBatteryById realBatteryId = Resolved False d err
            \<longrightarrow> fst R = \<lparr>status = 404,
                          body = JObj [(''error'', js_or err (JStr ''Battery not found''))]\<rparr>
                \<and> apiCache (snd R) = afterRead"
    using miss by simp
  have c5: "\<not> hit \<and> findBatteryById realBatteryId = Rejected m
            \<longrightarrow> fst R = \<lparr>status = 500, body = error_body ''Internal server error''\<rparr>
                \<and> apiCache (snd R) = afterRead"
    using miss by simp
  from c1 c2 c3 c4 c5 show ?thesis by blast
qed

theorem C9_battery_handler_witness:
  "battery_route False sample_batteryIdMap reply_found 20000 20001 fresh_state ''B001''
     = (\<lparr>status = 200, body = JStr ''old''\<rparr>, fresh_state)
   \<and> supplierCalls (snd (battery_route False sample_batteryIdMap reply_found 20000 20001
                            stale_state ''B001'')) = [''R1'']
   \<and> fst (battery_route False sample_batteryIdMap reply_found 20000 20001 stale_state ''B001'')
       = \<lparr>status = 200,
          body = JObj [(''manufactureId'', JStr ''R1''), (''duration'', JStr ''00:10:00'')]\<rparr>
   \<and> apiCache (snd (battery_route False sample_batteryIdMap reply_found 20000 20001
                       stale_state ''B001''))
       = [''battery_R1'' \<mapsto>
            \<lparr>data = JObj [(''manufactureId'', JStr ''R1''), (''duration'', JStr ''00:10:00'')],
             timestamp = 20001\<rparr>]
   \<and> fst (battery_route False sample_batteryIdMap reply_not_found 20000 20001 stale_state ''B001'')
       = \<lparr>status = 404, body = JObj [(''error'', JStr ''Battery not found'')]\<rparr>
   \<and> apiCache (snd (battery_route False sample_batteryIdMap reply_not_found 20000 20001
                       stale_state ''B001'')) = Map.empty
   \<and> fst (battery_route False sample_batteryIdMap reply_rejected 20000 20001 stale_state ''B001'')
       = \<lparr>status = 500, body = JObj [(''error'', JStr ''Internal server error'')]\<rparr>
   \<and> apiCache (snd (battery_route False sample_batteryIdMap reply_rejected 20000 20001
                       stale_state ''B001'')) = Map.empty"
proof -
  let ?e = "\<lparr>data = JStr ''old'', timestamp = 15000\<rparr>"
  let ?d = "JObj [(''manufactureId'', JStr ''R1''), (''duration'', JStr ''00:10:00'')]"
  have v: "validateBatteryId sample_batteryIdMap ''B001'' = Next"
    by (simp add: validateBatteryId_Next js_trim_def is_ws_def sample_batteryIdMap_def)
  have real: "sample_batteryIdMap ''B001'' = Some (RStr ''R1'')"
    by (simp add: sample_batteryIdMap_def)
  have fresh: "apiCache fresh_state (''battery_'' @ ''R1'') = Some ?e
      \<and> 20000 - timestamp ?e < CACHE_TTL \<and> truthy (data ?e)"
    by (simp add: CACHE_TTL_def fresh_state_def)
  have stale: "(\<exists>c. apiCache stale_state (''battery_'' @ ''R1'') = Some c
      \<and> 20000 - timestamp c < CACHE_TTL) = False"
    by (simp add: stale_state_def CACHE_TTL_def)
  then have nohit: "\<not> (\<exists>c. apiCache stale_state (''battery_'' @ ''R1'') = Some c
      \<and> 20000 - timestamp c < CACHE_TTL \<and> truthy (data c))"
    by blast
  have evicted: "(apiCache stale_state)(''battery_'' @ ''R1'' := None) = Map.empty"
    by (simp add: stale_state_def)
  have found: "reply_found ''R1'' = Resolved True ?d JNull"
    by (simp add: reply_found_def)
  have notfound: "reply_not_found ''R1'' = Resolved False JNull JNull"
    by (simp add: reply_not_found_def)
  have rejected: "reply_rejected ''R1'' = Rejected ''ECONNRESET''"
    by (simp add: reply_rejected_def)
  have calls: "supplierCalls stale_state @ [''R1''] = [''R1'']"
    by (simp add: stale_state_def)
  have msg: "js_or JNull (JStr ''Battery not found'') = JStr ''Battery not found''"
    by (simp add: js_or_def)
  note t1 = C9_battery_handler [OF v real, where st = fresh_state and now = 20000 and e = ?e
      and findBatteryById = reply_found and production = False and later = 20001]
  note t2 = C9_battery_handler [OF v real, where st = stale_state and now = 20000
      and findBatteryById = reply_found and production = False and later = 20001
      and d = ?d and err = JNull]
  note t3 = C9_battery_handler [OF v real, where st = stale_state and now = 20000
      and findBatteryById = reply_not_found and production = False and later = 20001
      and d = JNull and err = JNull]
  note t4 = C9_battery_handler [OF v real, where st = stale_state and now = 20000
      and findBatteryById = reply_rejected and production = False and later = 20001
      and m = "''ECONNRESET''"]
  from t1 fresh have g1: "battery_route False sample_batteryIdMap reply_found 20000 20001 fresh_state ''B001''
      = (\<lparr>status = 200, body = data ?e\<rparr>, fresh_state)"
    by blast
  from t2 nohit found have g2:
    "supplierCalls (snd (battery_route False sample_batteryIdMap reply_found 20000 20001 stale_state ''B001''))
       = supplierCalls stale_state @ [''R1'']
     \<and> fst (battery_route False sample_batteryIdMap reply_found 20000 20001 stale_state ''B001'')
       = \<lparr>status = 200, body = ?d\<rparr>
     \<and> apiCache (snd (battery_route False sample_batteryIdMap reply_found 20000 20001 stale_state ''B001''))
       = (if (\<exists>c. apiCache stale_state (''battery_'' @ ''R1'') = Some c
                \<and> 20000 - timestamp c < CACHE_TTL) then apiCache stale_state
          else (apiCache stale_state)(''battery_'' @ ''R1'' := None))
         (''battery_'' @ ''R1'' \<mapsto> \<lparr>data = ?d, timestamp = 20001\<rparr>)"
    by blast
  from t3 nohit notfound have g3:
    "fst (battery_route False sample_batteryIdMap reply_not_found 20000 20001 stale_state ''B001'')
       = \<lparr>status = 404, body = JObj [(''error'', js_or JNull (JStr ''Battery not found''))]\<rparr>
     \<and> apiCache (snd (battery_route False sample_batteryIdMap reply_not_found 20000 20001 stale_state ''B001''))
       = (if (\<exists>c. apiCache stale_state (''battery_'' @ ''R1'') = Some c
                \<and> 20000 - timestamp c < CACHE_TTL) then apiCache stale_state
          else (apiCache stale_state)(''battery_'' @ ''R1'' := None))"
    by blast
  from t4 nohit rejected have g4:
    "fst (battery_route False sample_batteryIdMap reply_rejected 20000 20001 stale_state ''B001'')
       = \<lparr>status = 500, body = error_body ''Internal server error''\<rparr>
     \<and> apiCache (snd (battery_route False sample_batteryIdMap reply_rejected 20000 20001 stale_state ''B001''))
       = (if (\<exists>c. apiCache stale_state (''battery_'' @ ''R1'') = Some c
                \<and> 20000 - timestamp c < CACHE_TTL) then apiCache stale_state
          else (apiCache stale_state)(''battery_'' @ ''R1'' := None))"
    by blast
  show ?thesis
    using g1 g2 g3 g4
    unfolding stale if_False evicted calls msg error_body_def
    by simp
qed


section \<open>Properties of the station merge\<close>

lemma mergeStation_defaults:
  assumes "stationInfoMap (sd_id stationData) = None"
    and "map_of Object_prototype (sd_id stationData) = None"
  shows "js_prop (mergeStation stationInfoMap stationData) ''name'' = JStr (''Station '' @ sd_id stationData)"
    and "js_prop (mergeStation stationInfoMap stationData) ''address'' = JStr []"
    and "js_prop (mergeStation stationInfoMap stationData) ''coordinates'' = JArr [JNum 0, JNum 0]"
    and "js_prop (mergeStation stationInfoMap stationData) ''isOpen'' = JBool True"
  using assms by (simp_all add: mergeStation_def js_get_def js_or_def)

lemma mergeStation_isOpen:
  "js_prop (mergeStation stationInfoMap stationData) ''isOpen''
     = JBool (if truthy (stationInfo_field hours (js_get stationInfoMap (sd_id stationData)))
              then locationManager_isOpen (sd_id stationData) else True)"
  by (simp add: mergeStation_def Let_def)

lemma mergeStation_always_open:
  "js_prop (mergeStation stationInfoMap stationData) ''isOpen'' = JBool True"
  by (simp add: mergeStation_def Let_def locationManager_isOpen_def)

text \<open>
  Claim C3 says that every station id of the supplier data that has no static metadata
  record is merged with the name \<open>Station\<close> followed by the id, an empty address, the
  coordinates \<open>[0,0]\<close> and \<open>isOpen = true\<close>, and that \<open>isOpen\<close> comes from the hours when
  there are hours and is true otherwise. The merge finds the record with
  \<^verbatim>\<open>stationInfoMap[stationData.id]\<close> on a plain object, which also finds the members of
  \<^verbatim>\<open>Object.prototype\<close>. For the station id \<open>constructor\<close>, with no metadata record at all,
  the lookup yields the function \<^verbatim>\<open>Object\<close>, \<^verbatim>\<open>stationInfo?.name\<close> is its name, and the
  merged station is called \<open>Object\<close>: in the response of \<^verbatim>\<open>GET /api/stations\<close> and in the
  cache entry that the polling callback writes. (The other defaults hold for every id
  without a record that is not such a name, lemma \<open>mergeStation_defaults\<close>; \<open>isOpen\<close> is
  \<^verbatim>\<open>locationManager.isOpen(id)\<close> when the hours are truthy and true otherwise, which is true
  in both cases, lemmas \<open>mergeStation_isOpen\<close> and \<open>mergeStation_always_open\<close>.)
\<close>

theorem C3_inherited_name_not_defaulted:
  "buildStationInfoMap [] (sd_id orphan_station) = None
   \<and> mergeStation (buildStationInfoMap []) orphan_station
     = JObj [(''id'', JStr ''constructor''), (''name'', JStr ''Object''), (''address'', JStr []),
             (''coordinates'', JArr [JNum 0, JNum 0]), (''hours'', JNull), (''isOpen'', JBool True),
             (''available'', JNum 3), (''occupied'', JNum 1), (''error'', JBool False)]
   \<and> js_prop (mergeStation (buildStationInfoMap []) orphan_station) ''name''
       \<noteq> JStr (''Station '' @ sd_id orphan_station)
   \<and> body (fst (stationsHandler [] fetch_orphan now later idle_server))
     = JArr [mergeStation (buildStationInfoMap []) orphan_station]
   \<and> stationPollCallback [] now None (Some [orphan_station]) idle_poller
     = Inr (idle_poller\<lparr>console := [''Background: Fetched data for 1 stations''],
              apiCache := [''stations'' \<mapsto>
                 \<lparr>data = JArr [mergeStation (buildStationInfoMap []) orphan_station],
                  timestamp = now\<rparr>]\<rparr>)"
proof -
  have a: "buildStationInfoMap [] (sd_id orphan_station) = None"
    by (simp add: buildStationInfoMap_def)
  have b: "mergeStation (buildStationInfoMap []) orphan_station
     = JObj [(''id'', JStr ''constructor''), (''name'', JStr ''Object''), (''address'', JStr []),
             (''coordinates'', JArr [JNum 0, JNum 0]), (''hours'', JNull), (''isOpen'', JBool True),
             (''available'', JNum 3), (''occupied'', JNum 1), (''error'', JBool False)]"
    by (simp add: mergeStation_def buildStationInfoMap_def js_get_def Object_prototype_def
        js_or_def orphan_station_def)
  have c: "js_prop (mergeStation (buildStationInfoMap []) orphan_station) ''name''
       \<noteq> JStr (''Station '' @ sd_id orphan_station)"
  proof -
    have "js_prop (mergeStation (buildStationInfoMap []) orphan_station) ''name'' = JStr ''Object''"
      unfolding b by simp
    then show ?thesis by (simp add: orphan_station_def)
  qed
  have d: "body (fst (stationsHandler [] fetch_orphan now later idle_server))
     = JArr [mergeStation (buildStationInfoMap []) orphan_station]"
    by (simp add: stationsHandler_def getCachedData_def idle_server_def fetch_orphan_def Let_def)
  have e: "stationPollCallback [] now None (Some [orphan_station]) idle_poller
     = Inr (idle_poller\<lparr>console := [''Background: Fetched data for 1 stations''],
              apiCache := [''stations'' \<mapsto>
                 \<lparr>data = JArr [mergeStation (buildStationInfoMap []) orphan_station],
                  timestamp = now\<rparr>]\<rparr>)"
    by (simp add: stationPollCallback_def idle_poller_def apiCache_set_def digit_char_def)
  from a b c d e show ?thesis by blast
qed

section \<open>Properties of the supplier adapter\<close>

text \<open>
  Claim C4. For every id, the adapter queries exactly one supplier, the owner of the id;
  what it reports is what the owner answers, so it reports not-found exactly when the id
  is absent there; and the result does not depend on anything the other supplier holds:
  replacing the other supplier's answers by any others leaves the result the same.
\<close>

theorem C4_adapter_queries_owner_only:
  "fst (adapter_lookup env ident) = [ownerOf env ident]
   \<and> snd (adapter_lookup env ident) = supplier_api env (ownerOf env ident) ident
   \<and> adapter_lookup (with_api env (other_supplier (ownerOf env ident)) answers) ident
       = adapter_lookup env ident"
  by (cases "ownerOf env ident")
     (simp_all add: adapter_lookup_def with_api_def other_supplier_def supplier_api_def)

theorem C4_adapter_queries_owner_only_witness:
  "supplierB two_suppliers ''RB7'' = Some ''battery RB7 at B''
   \<and> adapter_lookup two_suppliers ''RB7'' = ([SupplierA], None)
   \<and> adapter_lookup two_suppliers ''RA1'' = ([SupplierA], Some ''battery RA1 at A'')
   \<and> adapter_lookup two_suppliers ''E55'' = ([SupplierB], Some ''battery E55 at B'')"
proof -
  have o1: "ownerOf two_suppliers ''RB7'' = SupplierA"
    and o2: "ownerOf two_suppliers ''RA1'' = SupplierA"
    and o3: "ownerOf two_suppliers ''E55'' = SupplierB"
    by (simp_all add: two_suppliers_def owner_by_prefix_def)
  have a1: "supplier_api two_suppliers SupplierA ''RB7'' = None"
    and a2: "supplier_api two_suppliers SupplierA ''RA1'' = Some ''battery RA1 at A''"
    and a3: "supplier_api two_suppliers SupplierB ''E55'' = Some ''battery E55 at B''"
    by (simp_all add: two_suppliers_def supplier_api_def)
  have b: "supplierB two_suppliers ''RB7'' = Some ''battery RB7 at B''"
    by (simp add: two_suppliers_def)
  have g1: "adapter_lookup two_suppliers ''RB7'' = ([SupplierA], None)"
    using C4_adapter_queries_owner_only [of two_suppliers "''RB7''"] unfolding o1 a1 by (simp add: prod_eq_iff)
  have g2: "adapter_lookup two_suppliers ''RA1'' = ([SupplierA], Some ''battery RA1 at A'')"
    using C4_adapter_queries_owner_only [of two_suppliers "''RA1''"] unfolding o2 a2 by (simp add: prod_eq_iff)
  have g3: "adapter_lookup two_suppliers ''E55'' = ([SupplierB], Some ''battery E55 at B'')"
    using C4_adapter_queries_owner_only [of two_suppliers "''E55''"] unfolding o3 a3 by (simp add: prod_eq_iff)
  from b g1 g2 g3 show ?thesis by simp
qed

section \<open>Properties of the polling loops\<close>

lemma stationPollCallback_Inr:
  "\<exists>ps'. stationPollCallback allStations now err dat ps = Inr ps'"
  by (simp add: stationPollCallback_def split: option.splits)

lemma batteryOrdersCallback_passed:
  "\<exists>ps'. batteryOrdersCallback (Some message) None ps = Inr ps'"
  "\<exists>ps'. batteryOrdersCallback None (Some d) ps = Inr ps'"
  by (simp_all add: batteryOrdersCallback_def split: prod.splits)

lemma station_tick:
  assumes "scheduled t"
  shows "\<exists>ps'. poll_tick (stationPollCallback allStations now) outcome (t, Alive ps)
           = (t\<lparr>due := due t + interval t\<rparr>, Alive ps')"
proof (cases outcome)
  case (FetchFailed message)
  obtain ps' where "stationPollCallback allStations now (Some message) None ps = Inr ps'"
    using stationPollCallback_Inr by blast
  with assms FetchFailed show ?thesis by simp
next
  case (FetchOk d)
  obtain ps' where "stationPollCallback allStations now None (Some d) ps = Inr ps'"
    using stationPollCallback_Inr by blast
  with assms FetchOk show ?thesis by simp
qed

lemma battery_tick:
  assumes "scheduled t"
  shows "\<exists>ps'. poll_tick batteryOrdersCallback outcome (t, Alive ps)
           = (t\<lparr>due := due t + interval t\<rparr>, Alive ps')"
proof (cases outcome)
  case (FetchFailed message)
  obtain ps' where "batteryOrdersCallback (Some message) None ps = Inr ps'"
    using batteryOrdersCallback_passed(1) by blast
  with assms FetchFailed show ?thesis by simp
next
  case (FetchOk d)
  obtain ps' where "batteryOrdersCallback None (Some d) ps = Inr ps'"
    using batteryOrdersCallback_passed(2) by blast
  with assms FetchOk show ?thesis by simp
qed

lemma station_poll_run_keeps_schedule:
  assumes "scheduled t"
  shows "\<exists>ps'. station_poll_run ticks (t, Alive ps)
           = (t\<lparr>due := due t + interval t * int (length ticks)\<rparr>, Alive ps')"
  using assms
proof (induction ticks arbitrary: t ps)
  case Nil
  then show ?case by simp
next
  case (Cons tick ticks)
  obtain allStations outcome where tick: "tick = (allStations, outcome)" by (cases tick)
  obtain ps1 where s1: "poll_tick (stationPollCallback allStations (due t)) outcome (t, Alive ps)
           = (t\<lparr>due := due t + interval t\<rparr>, Alive ps1)"
    using station_tick [OF Cons.prems] by blast
  have "scheduled (t\<lparr>due := due t + interval t\<rparr>)" using Cons.prems by simp
  from Cons.IH [OF this, of ps1] obtain ps' where
    "station_poll_run ticks (t\<lparr>due := due t + interval t\<rparr>, Alive ps1)
       = (t\<lparr>due := due t + interval t\<rparr>
            \<lparr>due := due (t\<lparr>due := due t + interval t\<rparr>)
               + interval (t\<lparr>due := due t + interval t\<rparr>) * int (length ticks)\<rparr>, Alive ps')"
    by blast
  then have r: "station_poll_run ticks (t\<lparr>due := due t + interval t\<rparr>, Alive ps1)
       = (t\<lparr>due := due t + interval t * int (length (tick # ticks))\<rparr>, Alive ps')"
    by (simp add: algebra_simps)
  have "station_poll_run (tick # ticks) (t, Alive ps)
      = station_poll_run ticks (poll_tick (stationPollCallback allStations (due t)) outcome (t, Alive ps))"
    by (simp add: tick del: poll_tick.simps)
  also have "\<dots> = station_poll_run ticks (t\<lparr>due := due t + interval t\<rparr>, Alive ps1)"
    by (simp only: s1)
  finally show ?case using r by simp
qed

lemma battery_poll_run_keeps_schedule:
  assumes "scheduled t"
  shows "\<exists>ps'. battery_poll_run outcomes (t, Alive ps)
           = (t\<lparr>due := due t + interval t * int (length outcomes)\<rparr>, Alive ps')"
  using assms
proof (induction outcomes arbitrary: t ps)
  case Nil
  then show ?case by simp
next
  case (Cons outcome outcomes)
  obtain ps1 where s1: "poll_tick batteryOrdersCallback outcome (t, Alive ps)
           = (t\<lparr>due := due t + interval t\<rparr>, Alive ps1)"
    using battery_tick [OF Cons.prems] by blast
  have "scheduled (t\<lparr>due := due t + interval t\<rparr>)" using Cons.prems by simp
  from Cons.IH [OF this, of ps1] obtain ps' where
    "battery_poll_run outcomes (t\<lparr>due := due t + interval t\<rparr>, Alive ps1)
       = (t\<lparr>due := due t + interval t\<rparr>
            \<lparr>due := due (t\<lparr>due := due t + interval t\<rparr>)
               + interval (t\<lparr>due := due t + interval t\<rparr>) * int (length outcomes)\<rparr>, Alive ps')"
    by blast
  then have r: "battery_poll_run outcomes (t\<lparr>due := due t + interval t\<rparr>, Alive ps1)
       = (t\<lparr>due := due t + interval t * int (length (outcome # outcomes))\<rparr>, Alive ps')"
    by (simp add: algebra_simps)
  have "battery_poll_run (outcome # outcomes) (t, Alive ps)
      = battery_poll_run outcomes (poll_tick batteryOrdersCallback outcome (t, Alive ps))"
    by (simp del: poll_tick.simps)
  also have "\<dots> = battery_poll_run outcomes (t\<lparr>due := due t + interval t\<rparr>, Alive ps1)"
    by (simp only: s1)
  finally show ?case using r by simp
qed

text \<open>
  Claim C5. For the station loop and for the battery-order loop: a tick whose fetch fails
  appends the error line to the console, changes nothing else of the state, leaves the
  process alive and the loop scheduled, and the next tick is due exactly one interval
  later. Whatever the outcomes of its ticks (any of them failed), a loop started at time
  \<open>start\<close> is alive and scheduled after \<open>n\<close> ticks, and its next tick is due at
  \<open>start + (n + 1) * interval\<close>: the ticks fire at the fixed interval of 30000 ms and
  60000 ms.
\<close>

theorem C5_failed_tick_keeps_schedule:
  "(scheduled t \<longrightarrow>
      poll_tick (stationPollCallback allStations now) (FetchFailed message) (t, Alive ps)
        = (t\<lparr>due := due t + interval t\<rparr>,
           Alive (ps\<lparr>console := console ps @ [''Error in station polling: '' @ message]\<rparr>)))
   \<and> (scheduled t \<longrightarrow>
      poll_tick batteryOrdersCallback (FetchFailed message) (t, Alive ps)
        = (t\<lparr>due := due t + interval t\<rparr>,
           Alive (ps\<lparr>console := console ps @ [''Error in battery orders polling: '' @ message]\<rparr>)))
   \<and> (\<exists>ps'. station_poll_run ticks (poll_start 30000 start, Alive ps)
          = (\<lparr>interval = 30000, due = start + 30000 * (1 + int (length ticks)), scheduled = True\<rparr>,
             Alive ps'))
   \<and> (\<exists>ps'. battery_poll_run outcomes (poll_start 60000 start, Alive ps)
          = (\<lparr>interval = 60000, due = start + 60000 * (1 + int (length outcomes)), scheduled = True\<rparr>,
             Alive ps'))"
proof -
  have a: "scheduled t \<longrightarrow>
      poll_tick (stationPollCallback allStations now) (FetchFailed message) (t, Alive ps)
        = (t\<lparr>due := due t + interval t\<rparr>,
           Alive (ps\<lparr>console := console ps @ [''Error in station polling: '' @ message]\<rparr>))"
    by (simp add: stationPollCallback_def)
  have b: "scheduled t \<longrightarrow>
      poll_tick batteryOrdersCallback (FetchFailed message) (t, Alive ps)
        = (t\<lparr>due := due t + interval t\<rparr>,
           Alive (ps\<lparr>console := console ps @ [''Error in battery orders polling: '' @ message]\<rparr>))"
    by (simp add: batteryOrdersCallback_def)
  have c: "\<exists>ps'. station_poll_run ticks (poll_start 30000 start, Alive ps)
          = (\<lparr>interval = 30000, due = start + 30000 * (1 + int (length ticks)), scheduled = True\<rparr>,
             Alive ps')"
    using station_poll_run_keeps_schedule [of "poll_start 30000 start" ticks ps]
    by (simp add: poll_start_def algebra_simps)
  have d: "\<exists>ps'. battery_poll_run outcomes (poll_start 60000 start, Alive ps)
          = (\<lparr>interval = 60000, due = start + 60000 * (1 + int (length outcomes)), scheduled = True\<rparr>,
             Alive ps')"
    using battery_poll_run_keeps_schedule [of "poll_start 60000 start" outcomes ps]
    by (simp add: poll_start_def algebra_simps)
  from a b c d show ?thesis by blast
qed


theorem C5_failed_tick_keeps_schedule_witness:
  "poll_tick (stationPollCallback [] 30000) (FetchFailed ''ETIMEDOUT'') (poll_start 30000 0, Alive idle_poller)
     = (\<lparr>interval = 30000, due = 60000, scheduled = True\<rparr>,
        Alive (idle_poller\<lparr>console := [''Error in station polling: ETIMEDOUT'']\<rparr>))
   \<and> poll_tick batteryOrdersCallback (FetchFailed ''ETIMEDOUT'') (poll_start 60000 0, Alive idle_poller)
     = (\<lparr>interval = 60000, due = 120000, scheduled = True\<rparr>,
        Alive (idle_poller\<lparr>console := [''Error in battery orders polling: ETIMEDOUT'']\<rparr>))"
proof -
  have s1: "scheduled (poll_start 30000 0)" by (simp add: poll_start_def)
  have s2: "scheduled (poll_start 60000 0)" by (simp add: poll_start_def)
  have c: "console idle_poller = []" by (simp add: idle_poller_def)
  have d1: "(poll_start 30000 0)\<lparr>due := due (poll_start 30000 0) + interval (poll_start 30000 0)\<rparr>
      = \<lparr>interval = 30000, due = 60000, scheduled = True\<rparr>"
    by (simp add: poll_start_def)
  have d2: "(poll_start 60000 0)\<lparr>due := due (poll_start 60000 0) + interval (poll_start 60000 0)\<rparr>
      = \<lparr>interval = 60000, due = 120000, scheduled = True\<rparr>"
    by (simp add: poll_start_def)
  note t1 = C5_failed_tick_keeps_schedule [where t = "poll_start 30000 0" and allStations = "[]" and now = 30000
      and message = "''ETIMEDOUT''" and ps = idle_poller]
  note t2 = C5_failed_tick_keeps_schedule [where t = "poll_start 60000 0" and message = "''ETIMEDOUT''" and ps = idle_poller]
  from t1 s1 have g1: "poll_tick (stationPollCallback [] 30000) (FetchFailed ''ETIMEDOUT'')
       (poll_start 30000 0, Alive idle_poller)
     = ((poll_start 30000 0)\<lparr>due := due (poll_start 30000 0) + interval (poll_start 30000 0)\<rparr>,
        Alive (idle_poller\<lparr>console := console idle_poller @ [''Error in station polling: '' @ ''ETIMEDOUT'']\<rparr>))"
    by blast
  from t2 s2 have g2: "poll_tick batteryOrdersCallback (FetchFailed ''ETIMEDOUT'')
       (poll_start 60000 0, Alive idle_poller)
     = ((poll_start 60000 0)\<lparr>due := due (poll_start 60000 0) + interval (poll_start 60000 0)\<rparr>,
        Alive (idle_poller\<lparr>console := console idle_poller @ [''Error in battery orders polling: '' @ ''ETIMEDOUT'']\<rparr>))"
    by blast
  show ?thesis using g1 g2 unfolding d1 d2 c by simp
qed

section \<open>Properties of startup and shutdown\<close>

text \<open>
  Claim C6 says that after an unhealthy health check the health check is retried once,
  30 seconds later, before the loops are started. The code sets a timer that starts the
  polling after 30 seconds and never checks the health again: in the startup with an
  unhealthy answer at 250 ms there is one health check, none at 30250 ms, and the station
  loop is started at 30250 ms.
\<close>

theorem C6_no_second_health_check:
  "count_list (map snd (startup 250 False)) CheckApiHealth = 1
   \<and> (30250, CheckApiHealth) \<notin> set (startup 250 False)
   \<and> (30250, PollStationData 30000) \<in> set (startup 250 False)"
  by (simp add: startup_def startBackgroundPolling_def)

text \<open>
  Claim C6, amended. At startup exactly one health check is performed, at time 0, and the
  token keep-alive loop is started at time 0 whatever the answer. If the check reports
  healthy, the station loop and the battery-order loop are started as soon as it has
  answered; if it reports unhealthy, they are started 30000 ms after the answer, without
  a second health check.
\<close>

theorem C6_startup_sequence:
  "count_list (map snd (startup answered isHealthy)) CheckApiHealth = 1
   \<and> (0, CheckApiHealth) \<in> set (startup answered isHealthy)
   \<and> (0, StartEnergoTokenKeepAlive ''RL3D52000012'' 60000) \<in> set (startup answered isHealthy)
   \<and> (isHealthy \<longrightarrow>
        filter (\<lambda>e. snd e \<in> {PollStationData 30000, PollBatteryOrders 60000}) (startup answered isHealthy)
          = [(answered, PollStationData 30000), (answered, PollBatteryOrders 60000)])
   \<and> (\<not> isHealthy \<longrightarrow>
        filter (\<lambda>e. snd e \<in> {PollStationData 30000, PollBatteryOrders 60000}) (startup answered isHealthy)
          = [(answered + 30000, PollStationData 30000), (answered + 30000, PollBatteryOrders 60000)])"
  by (simp add: startup_def startBackgroundPolling_def)

theorem C6_startup_sequence_witness:
  "filter (\<lambda>e. snd e \<in> {PollStationData 30000, PollBatteryOrders 60000}) (startup 250 True)
     = [(250, PollStationData 30000), (250, PollBatteryOrders 60000)]
   \<and> filter (\<lambda>e. snd e \<in> {PollStationData 30000, PollBatteryOrders 60000}) (startup 250 False)
     = [(30250, PollStationData 30000), (30250, PollBatteryOrders 60000)]
   \<and> count_list (map snd (startup 250 False)) CheckApiHealth = 1"
  using C6_startup_sequence [of 250 True] C6_startup_sequence [of 250 False] by simp

text \<open>
  Claim C7 says that on SIGTERM and SIGINT all three background loops are cancelled as a
  group before the analytics are saved and the process exits. Both handlers call the stop
  handles of the station loop and of the battery-order loop; the stop handle of the token
  keep-alive loop, which the process keeps in \<^verbatim>\<open>energoTokenKeepAliveStop\<close>, is never called.
  With all three loops running, after either handler the first two loops are unscheduled
  and the keep-alive loop is still scheduled when \<^verbatim>\<open>process.exit(0)\<close> is called; the
  analytics are saved before the exit. No signal and no state of the loops makes the
  handler touch the keep-alive loop.
\<close>

theorem C7_keep_alive_not_cancelled:
  "fst (on_signal sig all_loops_running)
     = \<lparr>stationPolling = Some \<lparr>interval = 30000, due = 30000, scheduled = False\<rparr>,
        batteryPolling = Some \<lparr>interval = 60000, due = 60000, scheduled = False\<rparr>,
        energoTokenKeepAlive = Some \<lparr>interval = 60000, due = 60000, scheduled = True\<rparr>\<rparr>
   \<and> snd (on_signal SIGTERM all_loops_running)
     = [ConsoleLog ''SIGTERM received, shutting down gracefully'', SaveStats, Exit 0]
   \<and> snd (on_signal SIGINT all_loops_running)
     = [ConsoleLog ''SIGINT received, shutting down gracefully'', SaveStats, Exit 0]
   \<and> energoTokenKeepAlive (fst (on_signal sig l)) = energoTokenKeepAlive l"
  by (simp add: on_signal_def all_loops_running_def poll_start_def poll_stop_def)

section \<open>Properties of the duration functions\<close>

declare digits10.simps [simp del]
declare bit_length.simps [simp del]

lemma bit_length_bounds: "0 < n \<Longrightarrow> 2 ^ (bit_length n - 1) \<le> n \<and> n < 2 ^ bit_length n"
proof (induction n rule: bit_length.induct)
  case (1 n)
  show ?case
  proof (cases "n div 2 = 0")
    case True
    with "1.prems" have "n = 1" by (simp add: div_eq_0_iff)
    then show ?thesis by (simp add: bit_length.simps [of "Suc 0"] bit_length.simps [of 0])
  next
    case False
    then have pos: "0 < n div 2" by simp
    from "1.IH" [OF _ pos] "1.prems"
    have ih: "2 ^ (bit_length (n div 2) - 1) \<le> n div 2 \<and> n div 2 < 2 ^ bit_length (n div 2)"
      by simp
    have bl: "bit_length n = Suc (bit_length (n div 2))"
      using "1.prems" by (simp add: bit_length.simps [of n])
    have blpos: "0 < bit_length (n div 2)"
      using pos by (simp add: bit_length.simps [of "n div 2"])
    then obtain j where j: "bit_length (n div 2) = Suc j" by (cases "bit_length (n div 2)") auto
    from ih j have "2 * 2 ^ j \<le> n" "n < 2 * 2 ^ Suc j" by auto
    then show ?thesis by (simp add: bl j)
  qed
qed

lemma round_double_small: "m < 2 ^ 53 \<Longrightarrow> round_double m = m"
  by (simp add: round_double_def)

lemma round_double_large:
  assumes "2 ^ 53 \<le> m"
  shows "2 ^ 53 \<le> round_double m"
proof -
  have pos: "0 < m" using assms by (metis gr0I not_less_eq_eq power_not_zero zero_neq_numeral less_eq_nat.simps(1) le_zero_eq)
  define L where "L = bit_length m"
  have b: "2 ^ (L - 1) \<le> m" "m < 2 ^ L"
    using bit_length_bounds [OF pos] by (simp_all add: L_def)
  have "(2::nat) ^ 53 < 2 ^ L" using assms b(2) by linarith
  then have L: "53 < L" by (rule power_less_imp_less_exp [rotated]) simp
  define sh where "sh = L - 53"
  have sh: "0 < sh" "L - 1 = 52 + sh" using L by (simp_all add: sh_def)
  have "(2::nat) ^ 52 * 2 ^ sh \<le> m" using b(1) sh(2) by (simp add: power_add)
  then have q: "2 ^ 52 \<le> m div 2 ^ sh"
    by (metis div_le_mono nonzero_mult_div_cancel_right power_not_zero zero_neq_numeral)
  have two: "(2::nat) \<le> 2 ^ sh" using sh(1) by (metis One_nat_def Suc_leI power_increasing power_one_right one_le_numeral)
  have base: "(2::nat) ^ 53 \<le> (m div 2 ^ sh) * 2 ^ sh"
  proof -
    have "(2::nat) ^ 53 = 2 ^ 52 * 2" by simp
    also have "\<dots> \<le> (m div 2 ^ sh) * 2 ^ sh" using q two by (rule mult_le_mono)
    finally show ?thesis .
  qed
  have up: "(m div 2 ^ sh) * 2 ^ sh \<le> (m div 2 ^ sh + 1) * 2 ^ sh" by simp
  have "round_double m = (m div 2 ^ sh) * 2 ^ sh \<or> round_double m = (m div 2 ^ sh + 1) * 2 ^ sh"
    using assms by (simp add: round_double_def Let_def sh_def L_def)
  with base up show ?thesis by auto
qed

lemma shortest_decimal_safe:
  assumes "x < 2 ^ 53"
  shows "shortest_decimal x n ks = x"
proof (induction ks)
  case Nil
  show ?case by simp
next
  case (Cons k ks)
  let ?p = "10 ^ (n - k) :: nat"
  let ?lo = "(x div ?p) * ?p"
  have ppos: "0 < ?p" by simp
  have lo_le: "?lo \<le> x" by simp
  have hi_gt: "x < ?lo + ?p"
    using ppos by (metis div_mult_mod_eq add_less_cancel_left mod_less_divisor)
  have "?lo < 2 ^ 53" using lo_le assms by linarith
  then have rlo: "round_double ?lo = ?lo" by (rule round_double_small)
  have rhi: "round_double (?lo + ?p) \<noteq> x"
  proof (cases "?lo + ?p < 2 ^ 53")
    case True
    then show ?thesis using hi_gt by (simp add: round_double_small)
  next
    case False
    then have "2 ^ 53 \<le> ?lo + ?p" by linarith
    then have "2 ^ 53 \<le> round_double (?lo + ?p)" by (rule round_double_large)
    with assms show ?thesis by linarith
  qed
  show ?case
    by (simp add: Let_def rlo rhi Cons.IH)
qed


lemma digits10_length:
  "0 < k \<Longrightarrow> x < 10 ^ k \<Longrightarrow> length (digits10 x) \<le> k"
proof (induction x arbitrary: k rule: digits10.induct)
  case (1 n)
  show ?case
  proof (cases "n < 10")
    case True
    then show ?thesis using "1.prems" by (simp add: digits10.simps [of n])
  next
    case False
    obtain j where j: "k = Suc j" using "1.prems"(1) by (cases k) auto
    have "0 < j" using False "1.prems"(2) j by (cases j) auto
    moreover have "n div 10 < 10 ^ j" using "1.prems"(2) j by (simp add: less_mult_imp_div_less)
    ultimately have "length (digits10 (n div 10)) \<le> j" using "1.IH" [OF False] by simp
    then show ?thesis using False j by (simp add: digits10.simps [of n])
  qed
qed

lemma js_String_safe:
  assumes "x < 2 ^ 53"
  shows "js_String x = digits10 x"
proof -
  have "x < 10 ^ 21" using assms by simp
  then have "length (digits10 x) \<le> 21" by (simp add: digits10_length)
  then show ?thesis using assms by (simp add: js_String_def Let_def shortest_decimal_safe)
qed

lemma digit_char_props:
  assumes "d < 10"
  shows "is_digit (digit_char d)" and "digit_val (digit_char d) = d"
    and "digit_char d \<noteq> CHR '':''"
proof -
  from assms have "d = 0 \<or> d = 1 \<or> d = 2 \<or> d = 3 \<or> d = 4 \<or> d = 5 \<or> d = 6 \<or> d = 7 \<or> d = 8 \<or> d = 9"
    by arith
  then show "is_digit (digit_char d)" and "digit_val (digit_char d) = d"
    and "digit_char d \<noteq> CHR '':''"
    by (auto simp: digit_char_def is_digit_def digit_val_def)
qed

lemma digits10_nonempty: "digits10 n \<noteq> []"
  by (simp add: digits10.simps [of n])

lemma digits10_is_digit: "c \<in> set (digits10 n) \<Longrightarrow> is_digit c"
proof (induction n rule: digits10.induct)
  case (1 n)
  show ?case
  proof (cases "n < 10")
    case True
    then show ?thesis using "1.prems" by (simp add: digits10.simps [of n] digit_char_props)
  next
    case False
    then have "n mod 10 < 10" by simp
    then show ?thesis
      using False "1.prems" "1.IH" by (auto simp: digits10.simps [of n] digit_char_props)
  qed
qed

lemma digits_value_snoc: "digits_value (ds @ [c]) = 10 * digits_value ds + digit_val c"
  by (simp add: digits_value_def)

lemma digits_value_digits10: "digits_value (digits10 n) = n"
proof (induction n rule: digits10.induct)
  case (1 n)
  show ?case
  proof (cases "n < 10")
    case True
    then show ?thesis by (simp add: digits10.simps [of n] digits_value_def digit_char_props)
  next
    case False
    have "n mod 10 < 10" by simp
    then have "digit_val (digit_char (n mod 10)) = n mod 10" by (rule digit_char_props)
    then show ?thesis
      using False "1.IH" by (simp add: digits10.simps [of n] digits_value_snoc)
  qed
qed

lemma digits_value_zeros: "digits_value (replicate k CHR ''0'' @ ds) = digits_value ds"
  by (induction k) (simp_all add: digits_value_def digit_val_def)

lemma padStart2_digits10:
  shows "padStart2 (digits10 n) \<noteq> []"
    and "c \<in> set (padStart2 (digits10 n)) \<Longrightarrow> is_digit c"
    and "digits_value (padStart2 (digits10 n)) = n"
proof -
  show "padStart2 (digits10 n) \<noteq> []" by (simp add: padStart2_def digits10_nonempty)
  show "digits_value (padStart2 (digits10 n)) = n"
    by (simp add: padStart2_def digits_value_zeros digits_value_digits10)
  assume "c \<in> set (padStart2 (digits10 n))"
  then have "c = CHR ''0'' \<or> c \<in> set (digits10 n)"
    by (auto simp: padStart2_def split: if_splits)
  moreover have "is_digit CHR ''0''" by (simp add: is_digit_def)
  ultimately show "is_digit c" using digits10_is_digit by blast
qed

lemma split_on_no_sep: "c \<notin> set s \<Longrightarrow> split_on c s = [s]"
  by (induction s) auto

lemma split_on_append: "c \<notin> set a \<Longrightarrow> split_on c (a @ c # s) = a # split_on c s"
  by (induction a) auto

lemma split_on_three:
  assumes "c \<notin> set a" and "c \<notin> set b" and "c \<notin> set d"
  shows "split_on c (a @ [c] @ b @ [c] @ d) = [a, b, d]"
  using assms by (simp add: split_on_append split_on_no_sep)

lemma length_split_on: "length (split_on c s) = Suc (count_list s c)"
  by (induction s) (auto split: list.splits)

lemma is_digit_not_colon: "is_digit c \<Longrightarrow> c \<noteq> CHR '':''"
  by (auto simp: is_digit_def)

lemma parseInt10_digits:
  assumes "ds \<noteq> []" and "\<And>c. c \<in> set ds \<Longrightarrow> is_digit c"
  shows "parseInt10 ds = Some (int (round_double (digits_value ds)))"
proof -
  obtain c r where ds: "ds = c # r" using assms(1) by (cases ds) auto
  have c: "is_digit c" using assms(2) ds by simp
  then have nws: "\<not> is_ws c" and nm: "c \<noteq> CHR ''-''" and np: "c \<noteq> CHR ''+''"
    by (auto simp: is_digit_def is_ws_def)
  have tw: "takeWhile is_digit ds = ds" using assms(2) by (simp add: takeWhile_eq_all_conv)
  have "parseInt10 ds = parse_digits ds"
    using nws nm np by (simp add: parseInt10_def ds)
  also have "\<dots> = Some (int (round_double (digits_value ds)))"
    unfolding parse_digits_def Let_def tw using assms(1) by simp
  finally show ?thesis .
qed

lemma parse_padded:
  assumes "n < 2 ^ 53"
  shows "or0 (parseInt10 (padStart2 (js_String n))) = int n"
proof -
  have s: "js_String n = digits10 n" using assms by (rule js_String_safe)
  have "parseInt10 (padStart2 (digits10 n))
      = Some (int (round_double (digits_value (padStart2 (digits10 n)))))"
    by (rule parseInt10_digits) (simp_all add: padStart2_digits10)
  then show ?thesis
    using assms by (simp add: s padStart2_digits10 round_double_small or0_def)
qed

lemma round_double_int_small: "0 \<le> i \<Longrightarrow> i < 2 ^ 53 \<Longrightarrow> round_double_int i = i"
  by (simp add: round_double_int_def round_double_small nat_less_iff)


lemma parts_bounded:
  fixes n h m s :: nat
  assumes n: "n < 9007199254740992" and total: "h * 3600 + m * 60 + s = n"
  shows "h < 9007199254740992" and "m < 9007199254740992" and "s < 9007199254740992"
  using n total by linarith+

lemma total_int:
  fixes n h m s :: nat
  assumes total: "h * 3600 + m * 60 + s = n"
  shows "int h * 3600 + int m * 60 + int s = int n"
proof -
  have "int (h * 3600 + m * 60 + s) = int n" using total by simp
  then show ?thesis by simp
qed

lemma round_double_int_safe:
  "0 \<le> i \<Longrightarrow> i < 9007199254740992 \<Longrightarrow> round_double_int i = i"
  by (rule round_double_int_small) simp_all

lemma no_rounding:
  fixes n h m s :: nat
  assumes n: "int n < 9007199254740992" and total: "int h * 3600 + int m * 60 + int s = int n"
  shows "round_double_int (int h * 3600) = int h * 3600"
    "round_double_int (int m * 60) = int m * 60"
    "round_double_int (int h * 3600 + int m * 60) = int h * 3600 + int m * 60"
    "round_double_int (int h * 3600 + int m * 60 + int s) = int h * 3600 + int m * 60 + int s"
proof -
  show "round_double_int (int h * 3600) = int h * 3600"
    by (rule round_double_int_safe) (use n total in linarith)+
  show "round_double_int (int m * 60) = int m * 60"
    by (rule round_double_int_safe) (use n total in linarith)+
  show "round_double_int (int h * 3600 + int m * 60) = int h * 3600 + int m * 60"
    by (rule round_double_int_safe) (use n total in linarith)+
  show "round_double_int (int h * 3600 + int m * 60 + int s) = int h * 3600 + int m * 60 + int s"
    by (rule round_double_int_safe) (use n total in linarith)+
qed


lemma duration_roundtrip:
  assumes "n \<le> 9007199254740991"
  shows "parseDurationToSeconds (formatSecondsToDuration n) = int n"
proof -
  define h where "h = n div 3600"
  define m where "m = (n mod 3600) div 60"
  define s where "s = n mod 60"
  define H where "H = padStart2 (js_String h)"
  define M where "M = padStart2 (js_String m)"
  define S where "S = padStart2 (js_String s)"
  have n: "n < 9007199254740992" using assms by simp
  have "(n mod 3600) mod 60 = n mod 60" by (simp add: mod_mod_cancel)
  then have "m * 60 + s = n mod 3600"
    unfolding m_def s_def by (metis div_mult_mod_eq)
  then have total: "h * 3600 + m * 60 + s = n"
    unfolding h_def by (metis add.assoc div_mult_mod_eq)
  have h: "h < 2 ^ 53" and m: "m < 2 ^ 53" and s: "s < 2 ^ 53"
    using parts_bounded [OF n total] by simp_all
  have H: "H = padStart2 (digits10 h)" and M: "M = padStart2 (digits10 m)"
    and S: "S = padStart2 (digits10 s)"
    using h m s by (simp_all add: H_def M_def S_def js_String_safe)
  have "CHR '':'' \<notin> set H"
    unfolding H by (metis padStart2_digits10(2) is_digit_not_colon)
  moreover have "CHR '':'' \<notin> set M"
    unfolding M by (metis padStart2_digits10(2) is_digit_not_colon)
  moreover have "CHR '':'' \<notin> set S"
    unfolding S by (metis padStart2_digits10(2) is_digit_not_colon)
  ultimately have three: "split_on CHR '':'' (H @ [CHR '':''] @ M @ [CHR '':''] @ S) = [H, M, S]"
    by (rule split_on_three)
  have fmt: "formatSecondsToDuration n = H @ [CHR '':''] @ M @ [CHR '':''] @ S"
    unfolding formatSecondsToDuration_def Let_def H_def M_def S_def h_def m_def s_def by simp
  have pH: "or0 (parseInt10 H) = int h" and pM: "or0 (parseInt10 M) = int m"
    and pS: "or0 (parseInt10 S) = int s"
    using h m s by (simp_all add: H_def M_def S_def parse_padded)
  have itotal: "int h * 3600 + int m * 60 + int s = int n"
    using total by (rule total_int)
  have inn: "int n < 9007199254740992" using n by simp
  note r = no_rounding [OF inn itotal]
  have "parseDurationToSeconds (H @ [CHR '':''] @ M @ [CHR '':''] @ S)
      = round_double_int (round_double_int (round_double_int (int h * 3600)
          + round_double_int (int m * 60)) + int s)"
    unfolding parseDurationToSeconds_def three Let_def by (simp add: pH pM pS)
  also have "\<dots> = int n" unfolding r by (rule itotal)
  finally show ?thesis unfolding fmt .
qed

lemma upto_22: "[1..<Suc 22] = [1,2,3,4,5,6,7,8,9,10,11,12,13,14,15,16,17,18,19,20,21,22]"
  by (simp add: upt_rec)

lemma digits10_2_70: "digits10 1180591620717411303424 = ''1180591620717411303424''"
  by (simp add: digits10.simps digit_char_def)

lemma digits10_shortest_2_70: "digits10 1180591620717411300000 = ''1180591620717411300000''"
  by (simp add: digits10.simps digit_char_def)

lemma shortest_decimal_2_70:
  "shortest_decimal 1180591620717411303424 22
     [1,2,3,4,5,6,7,8,9,10,11,12,13,14,15,16,17,18,19,20,21,22] = 1180591620717411300000"
  by (simp add: round_double_def Let_def bit_length.simps)

lemma js_String_2_70: "js_String 1180591620717411303424 = ''1.1805916207174113e+21''"
proof -
  have len: "length (digits10 1180591620717411303424) = 22"
    unfolding digits10_2_70 by simp
  have v: "shortest_decimal 1180591620717411303424 (length (digits10 1180591620717411303424))
            [1..<Suc (length (digits10 1180591620717411303424))] = 1180591620717411300000"
    unfolding len upto_22 by (rule shortest_decimal_2_70)
  have lenv: "length (digits10 1180591620717411300000) = 22"
    unfolding digits10_shortest_2_70 by simp
  have strip: "rev (dropWhile (\<lambda>c. c = CHR ''0'') (rev (digits10 1180591620717411300000)))
      = ''11805916207174113''"
    unfolding digits10_shortest_2_70 by simp
  have e: "digits10 (22 - 1) = ''21''"
    by (simp add: digits10.simps digit_char_def)
  show ?thesis
    unfolding js_String_def Let_def v lenv strip e by simp
qed

lemma js_String_0: "js_String 0 = ''0''"
  by (simp add: js_String_safe digits10.simps digit_char_def)

lemma format_big:
  "formatSecondsToDuration 4250129834582680692326400 = ''1.1805916207174113e+21:00:00''"
  by (simp add: formatSecondsToDuration_def Let_def js_String_2_70 js_String_0 padStart2_def)

lemma parse_big: "parseDurationToSeconds ''1.1805916207174113e+21:00:00'' = 3600"
  by (simp add: parseDurationToSeconds_def Let_def parseInt10_def parse_digits_def is_ws_def
      is_digit_def digits_value_def digit_val_def or0_def round_double_def round_double_int_def)

text \<open>
  Claim C10 says that parsing the formatted duration gives back every natural number of
  seconds. From \<open>10^21\<close> hours on, \<^verbatim>\<open>String(hours)\<close> is in exponent notation and
  \<^verbatim>\<open>parseInt\<close> reads its first digit only: \<open>3600 * 2^70\<close> seconds (a double, as is the
  quotient \<open>2^70\<close>, so that no operation rounds) are formatted as
  \<^verbatim>\<open>1.1805916207174113e+21:00:00\<close>, which is parsed as 3600.
\<close>

theorem C10_large_duration_not_restored:
  "formatSecondsToDuration (3600 * 2 ^ 70) = ''1.1805916207174113e+21:00:00''
   \<and> parseDurationToSeconds (formatSecondsToDuration (3600 * 2 ^ 70)) = 3600
   \<and> parseDurationToSeconds (formatSecondsToDuration (3600 * 2 ^ 70)) \<noteq> int (3600 * 2 ^ 70)"
proof -
  have n: "(3600::nat) * 2 ^ 70 = 4250129834582680692326400" by simp
  have f: "formatSecondsToDuration (3600 * 2 ^ 70) = ''1.1805916207174113e+21:00:00''"
    unfolding n by (rule format_big)
  have p: "parseDurationToSeconds (formatSecondsToDuration (3600 * 2 ^ 70)) = 3600"
    unfolding f by (rule parse_big)
  have "parseDurationToSeconds (formatSecondsToDuration (3600 * 2 ^ 70)) \<noteq> int (3600 * 2 ^ 70)"
    unfolding p by simp
  with f p show ?thesis by blast
qed

text \<open>
  Claim C10, amended. For every natural number \<open>n\<close> of seconds up to \<open>2^53 - 1\<close>
  (\<^verbatim>\<open>Number.MAX_SAFE_INTEGER\<close>), \<^verbatim>\<open>parseDurationToSeconds(formatSecondsToDuration(n))\<close>
  equals \<open>n\<close>; and for every string that does not consist of exactly three
  colon-separated parts, that is every string in which the number of colons is not two,
  \<^verbatim>\<open>parseDurationToSeconds\<close> returns 0.
\<close>

theorem C10_duration_roundtrip:
  "(n \<le> 9007199254740991 \<longrightarrow> parseDurationToSeconds (formatSecondsToDuration n) = int n)
   \<and> (length (split_on CHR '':'' durationString) \<noteq> 3 \<longrightarrow>
        parseDurationToSeconds durationString = 0)
   \<and> (count_list durationString CHR '':'' \<noteq> 2 \<longrightarrow> parseDurationToSeconds durationString = 0)"
proof -
  have a: "n \<le> 9007199254740991 \<longrightarrow> parseDurationToSeconds (formatSecondsToDuration n) = int n"
    by (simp add: duration_roundtrip)
  have b: "length (split_on CHR '':'' durationString) \<noteq> 3 \<longrightarrow>
        parseDurationToSeconds durationString = 0"
    by (simp add: parseDurationToSeconds_def)
  have c: "count_list durationString CHR '':'' \<noteq> 2 \<longrightarrow> parseDurationToSeconds durationString = 0"
    by (simp add: parseDurationToSeconds_def length_split_on)
  from a b c show ?thesis by blast
qed

lemma format_3725: "formatSecondsToDuration 3725 = ''01:02:05''"
  by (simp add: formatSecondsToDuration_def Let_def js_String_safe padStart2_def
      digits10.simps digit_char_def)

theorem C10_duration_roundtrip_witness:
  "formatSecondsToDuration 3725 = ''01:02:05''
   \<and> parseDurationToSeconds (formatSecondsToDuration 3725) = 3725
   \<and> parseDurationToSeconds ''01:02:05'' = 3725
   \<and> parseDurationToSeconds ''12:34'' = 0
   \<and> parseDurationToSeconds ''1:2:3:4'' = 0"
proof -
  have h1: "(3725::nat) \<le> 9007199254740991" by simp
  have h2: "length (split_on CHR '':'' ''12:34'') \<noteq> 3" by simp
  have h3: "count_list ''1:2:3:4'' CHR '':'' \<noteq> 2" by simp
  note t = C10_duration_roundtrip [of 3725 "''12:34''"]
  note t' = C10_duration_roundtrip [of 3725 "''1:2:3:4''"]
  from t h1 have g1: "parseDurationToSeconds (formatSecondsToDuration 3725) = int 3725" by blast
  from t h2 have g2: "parseDurationToSeconds ''12:34'' = 0" by blast
  from t' h3 have g4: "parseDurationToSeconds ''1:2:3:4'' = 0" by blast
  from g1 have g3: "parseDurationToSeconds ''01:02:05'' = 3725" unfolding format_3725 by simp
  from g1 g2 g3 g4 format_3725 show ?thesis by simp
qed

end
